theory Spec2Isabelle
  imports Complex_Main
begin

section \<open>Relocation impact analyzer: the commute computation core\<close>

text \<open>
  A shallow embedding of the parts of \<^verbatim>\<open>analyzer.py\<close>, \<^verbatim>\<open>g_api.py\<close> and
  \<^verbatim>\<open>graphing.py\<close> that compute commute durations, costs, emissions and the
  differential analyses. Python floats are modelled as real numbers, Python exceptions as
  values of a sum type (\<open>Inl\<close> carries the exception), mutated attributes and calls to the
  outside world as explicit state.
\<close>

subsection \<open>Exceptions and the recoverability map\<close>

text \<open>An exception object: the name of its class (\<^verbatim>\<open>e.__class__.__name__\<close>) and its text.\<close>

datatype pyexc = PyExc (exc_class: string) (exc_text: string)

text \<open>\<^verbatim>\<open>GAPI.google_api_exceptions\<close> (g_api.py): exception class name to recoverability.\<close>

definition google_api_exceptions :: "string \<rightharpoonup> string" where
  "google_api_exceptions =
     [''ApiError'' \<mapsto> ''non-recoverable'',
      ''TransportError'' \<mapsto> ''recoverable'',
      ''HttpError'' \<mapsto> ''recoverable'',
      ''Timeout'' \<mapsto> ''recoverable'',
      ''_RetriableRequest'' \<mapsto> ''recoverable'',
      ''_OverQueryLimit'' \<mapsto> ''recoverable'',
      ''EmptyResult'' \<mapsto> ''recoverable'']"

text \<open>
  \<^verbatim>\<open>Analyzer.handle_GAPI_exception\<close>: the map is the attribute of the injected
  \<^verbatim>\<open>self.gAPI\<close>, so it is a parameter here.
\<close>

definition handle_GAPI_exception :: "(string \<rightharpoonup> string) \<Rightarrow> pyexc \<Rightarrow> bool" where
  "handle_GAPI_exception excs e =
     (case excs (exc_class e) of
        Some action \<Rightarrow> (if action = ''recoverable'' then True else False)
      | None \<Rightarrow> False)"

subsection \<open>The provider call of the commute-matrix builder\<close>

type_synonym gps = "real \<times> real"

text \<open>A departure datetime, in microseconds since some epoch.\<close>

type_synonym datetime = int

type_synonym query = "gps \<times> gps \<times> datetime"

text \<open>
  The dictionary \<^verbatim>\<open>GAPI.commute\<close> returns, with its keys \<^verbatim>\<open>distance\<close>,
  \<^verbatim>\<open>duration\<close> and \<^verbatim>\<open>duration_in_traffic\<close>: three free-text fields.
\<close>

record commute =
  distance_text :: string
  duration_text :: string
  duration_in_traffic_text :: string

text \<open>
  The injected provider, \<^verbatim>\<open>self.gAPI.commute(origin, destination, departure_time)\<close>:
  it has a state of its own (the network, the remote service), and each call either
  returns a dictionary or raises.
\<close>

type_synonym 'p provider = "'p \<Rightarrow> query \<Rightarrow> (pyexc + commute) \<times> 'p"

text \<open>
  What the builder does to the outside world: the provider's state, the queries issued so
  far (oldest first), the arguments of the \<^verbatim>\<open>sleep\<close> calls made for backoff, and the
  lines appended by \<^verbatim>\<open>log_error\<close>.
\<close>

record 'p world =
  pstate :: 'p
  call_log :: "query list"
  backoffs :: "nat list"
  error_log :: "string list"

definition call_provider :: "'p provider \<Rightarrow> 'p world \<Rightarrow> query \<Rightarrow> (pyexc + commute) \<times> 'p world" where
  "call_provider prov w q =
     (case prov (pstate w) q of
        (r, p') \<Rightarrow> (r, w\<lparr>pstate := p', call_log := call_log w @ [q]\<rparr>))"

definition log_error :: "string \<Rightarrow> 'p world \<Rightarrow> 'p world" where
  "log_error message w = w\<lparr>error_log := error_log w @ [message]\<rparr>"

definition sleep_backoff :: "nat \<Rightarrow> 'p world \<Rightarrow> 'p world" where
  "sleep_backoff secs w = w\<lparr>backoffs := backoffs w @ [secs]\<rparr>"

text \<open>
  The exception Python raises for \<^verbatim>\<open>destination(0)\<close>, \<^verbatim>\<open>destination\<close> being a tuple.
\<close>

definition tuple_not_callable :: pyexc where
  "tuple_not_callable = PyExc ''TypeError'' ([CHR 0x27] @ ''tuple'' @ [CHR 0x27] @ '' object is not callable'')"

text \<open>
  \<^verbatim>\<open>Analyzer.get_commute_data\<close>, the \<^verbatim>\<open>try\<close> statement around the provider call
  (analyzer.py lines 591 to 618), for one slot of one (office, employee) pair.
  The retry is written
  \<^verbatim>\<open>self.gAPI.commute((source[0],source[1]),(destination(0),destination[1]),...)\<close>:
  Python evaluates the arguments before the call, \<^verbatim>\<open>destination(0)\<close> calls a tuple and
  raises TypeError, so the provider is not called a second time. The inner handler
  catches that TypeError, logs it and raises it.
\<close>

definition get_commute_data_query ::
  "(string \<rightharpoonup> string) \<Rightarrow> 'p provider \<Rightarrow> 'p world \<Rightarrow> gps \<Rightarrow> gps \<Rightarrow> datetime
     \<Rightarrow> (pyexc + commute) \<times> 'p world" where
  "get_commute_data_query excs prov w source destination departure =
     (case call_provider prov w (source, destination, departure) of
        (Inr c, w1) \<Rightarrow> (Inr c, w1)
      | (Inl e, w1) \<Rightarrow>
          (let w2 = log_error (''Exception calling commute function: '' @ exc_text e) w1 in
           if handle_GAPI_exception excs e then
             (let w3 = sleep_backoff 10000 w2;
                  e2 = tuple_not_callable;
                  w4 = log_error (''Recoverable error calling commute function, failed twice. Deemed unrecoverable. Exception: '' @ exc_text e2) w3
              in (Inl e2, w4))
           else
             (let w3 = log_error (''Unrecoverable error calling commute function, failed once. Exception: '' @ exc_text e) w2
              in (Inl e, w3))))"

text \<open>A provider that times out on its first call and answers every later one.\<close>

definition sample_commute :: commute where
  "sample_commute = \<lparr>distance_text = ''14.3 mi'', duration_text = ''25 mins'',
      duration_in_traffic_text = ''40 mins''\<rparr>"

definition flaky_provider :: "nat provider" where
  "flaky_provider n q =
     (if n = 0 then (Inl (PyExc ''Timeout'' ''timed out''), Suc n) else (Inr sample_commute, Suc n))"

definition failing_provider :: "pyexc \<Rightarrow> unit provider" where
  "failing_provider e u q = (Inl e, u)"

definition fresh_world :: "'p \<Rightarrow> 'p world" where
  "fresh_world p = \<lparr>pstate = p, call_log = [], backoffs = [], error_log = []\<rparr>"

subsection \<open>Project configuration\<close>

text \<open>
  A Python value of the kind a configuration attribute can hold where the code compares
  it with both \<^verbatim>\<open>False\<close> and \<^verbatim>\<open>"False"\<close>.
\<close>

datatype pyval = PyNone | PyBool bool | PyStr string

text \<open>
  The attributes of \<^verbatim>\<open>Project\<close> (project.py, \<^verbatim>\<open>project_file_attributes\<close>) that the
  computations below read. The two day and week counts are Python ints, the others floats.
\<close>

record project =
  use_gps_fuzzing :: pyval
  commute_range_cut_off :: real
  commute_days_per_week :: int
  commute_weeks_per_year :: int
  CO2_per_mile :: real
  traffic_regime_1 :: real
  traffic_regime_2 :: real
  traffic_regime_3 :: real
  traffic_regime_1_coeff :: real
  traffic_regime_2_coeff :: real
  traffic_regime_3_coeff :: real
  mileage_rate :: real
  turnover_threshold_due_to_cost :: real
  turnover_probability_time_cost :: real
  employee_replacement_cost :: real
  median_salary :: real
  hours_per_year :: real

text \<open>The defaults of project.py.\<close>

definition default_project :: project where
  "default_project =
     \<lparr>use_gps_fuzzing = PyBool True,
      commute_range_cut_off = 50,
      commute_days_per_week = 2,
      commute_weeks_per_year = 50,
      CO2_per_mile = 0.404,
      traffic_regime_1 = 0,
      traffic_regime_2 = 33.554,
      traffic_regime_3 = 55.923,
      traffic_regime_1_coeff = 0.7,
      traffic_regime_2_coeff = 0.53,
      traffic_regime_3_coeff = 1.25,
      mileage_rate = 0.67,
      turnover_threshold_due_to_cost = 0.03,
      turnover_probability_time_cost = 0.25,
      employee_replacement_cost = 60000,
      median_salary = 114068,
      hours_per_year = 2080\<rparr>"

subsection \<open>Traffic regime and emissions factor\<close>

definition ZeroDivisionError :: pyexc where
  "ZeroDivisionError = PyExc ''ZeroDivisionError'' ''float division by zero''"

text \<open>
  Python's true division of two Python numbers: it raises when the divisor is zero,
  whatever the dividend.
\<close>

definition py_truediv :: "real \<Rightarrow> real \<Rightarrow> pyexc + real" where
  "py_truediv a b = (if b = 0 then Inl ZeroDivisionError else Inr (a / b))"

text \<open>
  The numbers handed to the classifier are Python floats or ints, or
  \<^verbatim>\<open>numpy.float64\<close> values: the entries of a row that \<^verbatim>\<open>iterrows\<close> yields are
  Python floats when the frame has a column that is not numeric, and
  \<^verbatim>\<open>numpy.float64\<close> values when all its columns are numeric. The division is numpy's
  as soon as one of its two operands is a \<^verbatim>\<open>numpy.float64\<close>. The operands are
  finite numbers here, and a zero is the float 0.0 or the int 0.
\<close>

datatype operands = PythonNumbers | NumpyFloat64

text \<open>
  What a true division gives: a finite quotient, or one of the values that numpy's
  division by zero produces (with a warning, not an exception).
\<close>

datatype quotient = Finite real | PosInf | NegInf | NaN

definition truediv :: "operands \<Rightarrow> real \<Rightarrow> real \<Rightarrow> pyexc + quotient" where
  "truediv kind a b =
     (if b = 0 then
        (case kind of
           PythonNumbers \<Rightarrow> Inl ZeroDivisionError
         | NumpyFloat64 \<Rightarrow> Inr (if 0 < a then PosInf else if a < 0 then NegInf else NaN))
      else Inr (Finite (a / b)))"

text \<open>The comparison \<^verbatim>\<open>average_speed < threshold\<close>, the threshold being a finite float.\<close>

definition quotient_less :: "quotient \<Rightarrow> real \<Rightarrow> bool" where
  "quotient_less q x =
     (case q of Finite r \<Rightarrow> r < x | PosInf \<Rightarrow> False | NegInf \<Rightarrow> True | NaN \<Rightarrow> False)"

text \<open>
  \<^verbatim>\<open>Analyzer.get_traffic_regime\<close>:
  \<^verbatim>\<open>average_speed = distance / (duration_in_traffic/60)\<close>, then two comparisons.
  The inner division is by the constant 60, the outer one by its result.
\<close>

definition get_traffic_regime :: "project \<Rightarrow> operands \<Rightarrow> real \<Rightarrow> real \<Rightarrow> pyexc + nat" where
  "get_traffic_regime p kind distance duration_in_traffic =
     (case truediv kind distance (duration_in_traffic / 60) of
        Inl e \<Rightarrow> Inl e
      | Inr average_speed \<Rightarrow>
          if quotient_less average_speed (traffic_regime_2 p) then Inr 1
          else if quotient_less average_speed (traffic_regime_3 p) then Inr 2
          else Inr 3)"

text \<open>\<^verbatim>\<open>Analyzer.get_traffic_emissions_factor\<close>.\<close>

definition get_traffic_emissions_factor :: "project \<Rightarrow> nat \<Rightarrow> real" where
  "get_traffic_emissions_factor p regime =
     (if regime = 1 then traffic_regime_1_coeff p
      else if regime = 2 then traffic_regime_2_coeff p
      else if regime = 3 then traffic_regime_3_coeff p
      else 1)"

subsection \<open>The commute matrix and its emissions annotation\<close>

datatype day = Mon | Tue | Wed | Thu | Fri

datatype time = Morning | Evening

type_synonym slot = "day \<times> time"

text \<open>
  One row of \<^verbatim>\<open>commute_data.csv\<close>. The ten columns
  \<^verbatim>\<open>{day}_{time}_duration_in_traffic\<close> and the ten columns \<^verbatim>\<open>{day}_{time}_emissions\<close>
  are two functions of the slot; the columns \<^verbatim>\<open>duration\<close> and \<^verbatim>\<open>emissions\<close> are
  \<open>base_duration\<close> and \<open>base_emissions\<close> here.
\<close>

record commute_row =
  office_address :: string
  origin_lat :: real
  origin_long :: real
  destination_lat :: real
  destination_long :: real
  miles :: real
  base_duration :: real
  base_emissions :: real
  commute_cost :: real
  slot_duration_in_traffic :: "slot \<Rightarrow> real"
  slot_emissions :: "slot \<Rightarrow> real"

text \<open>The order of the two nested loops over \<^verbatim>\<open>["m","t","w","h","f"]\<close> and
  \<^verbatim>\<open>["morning","evening"]\<close>.\<close>

definition slots :: "slot list" where
  "slots = [(Mon, Morning), (Mon, Evening), (Tue, Morning), (Tue, Evening), (Wed, Morning),
            (Wed, Evening), (Thu, Morning), (Thu, Evening), (Fri, Morning), (Fri, Evening)]"

text \<open>
  The body of the loops of \<^verbatim>\<open>get_commute_emissions\<close> for one row. \<open>row\<close> is what
  \<^verbatim>\<open>iterrows\<close> hands out, \<open>cur\<close> the row of the data frame in memory, written with
  \<^verbatim>\<open>.loc[index, column] = value\<close>; the columns written are not the columns read.
  The result is the row in memory as the loop leaves it and the exception that ended
  the loop, if one did: the slots before the one that raised are written, that slot and
  the later ones are not.
\<close>

fun annotate_slots ::
  "project \<Rightarrow> operands \<Rightarrow> commute_row \<Rightarrow> slot list \<Rightarrow> commute_row \<Rightarrow> commute_row \<times> pyexc option" where
  "annotate_slots p kind row [] cur = (cur, None)"
| "annotate_slots p kind row (s # ss) cur =
     (case get_traffic_regime p kind (miles row) (slot_duration_in_traffic row s) of
        Inl e \<Rightarrow> (cur, Some e)
      | Inr regime \<Rightarrow>
          annotate_slots p kind row ss
            (cur\<lparr>slot_emissions := (slot_emissions cur)
                    (s := miles row * CO2_per_mile p * get_traffic_emissions_factor p regime)\<rparr>))"

definition annotate_row :: "project \<Rightarrow> operands \<Rightarrow> commute_row \<Rightarrow> commute_row \<times> pyexc option" where
  "annotate_row p kind row =
     annotate_slots p kind row slots (row\<lparr>base_emissions := miles row * CO2_per_mile p\<rparr>)"

text \<open>
  \<^verbatim>\<open>Analyzer.get_commute_emissions\<close>, the loop over the rows of a loaded frame whose
  entries are of the given kind. The result is the frame in memory as the call leaves it
  and the exception it raised, if any: the rows after the one that raised are as they
  were. The frame is saved to its file only when no exception is raised.
\<close>

fun get_commute_emissions ::
  "project \<Rightarrow> operands \<Rightarrow> commute_row list \<Rightarrow> commute_row list \<times> pyexc option" where
  "get_commute_emissions p kind [] = ([], None)"
| "get_commute_emissions p kind (row # rows) =
     (case annotate_row p kind row of
        (row', Some e) \<Rightarrow> (row' # rows, Some e)
      | (row', None) \<Rightarrow>
          (case get_commute_emissions p kind rows of
             (rows', raised) \<Rightarrow> (row' # rows', raised)))"

text \<open>A record at 20 miles whose every slot takes 40 minutes, and one with a slot of 0 minutes.\<close>

definition sample_row :: commute_row where
  "sample_row =
     \<lparr>office_address = ''A'', origin_lat = 1, origin_long = 2, destination_lat = 3,
      destination_long = 4, miles = 20, base_duration = 30, base_emissions = -1,
      commute_cost = -1, slot_duration_in_traffic = (\<lambda>s. 40), slot_emissions = (\<lambda>s. -1)\<rparr>"

definition zero_slot_row :: commute_row where
  "zero_slot_row = sample_row\<lparr>slot_duration_in_traffic := (\<lambda>s. 40)((Wed, Evening) := 0)\<rparr>"

subsection \<open>The analysis phase\<close>

text \<open>\<^verbatim>\<open>str.endswith\<close> and \<^verbatim>\<open>str.startswith\<close>.\<close>

definition endswith :: "string \<Rightarrow> string \<Rightarrow> bool" where
  "endswith s suffix = (length suffix \<le> length s \<and> drop (length s - length suffix) s = suffix)"

definition startswith :: "string \<Rightarrow> string \<Rightarrow> bool" where
  "startswith s prefix = (take (length prefix) s = prefix)"

text \<open>
  A project as \<^verbatim>\<open>update_analysis_phase\<close> sees it: its configuration and three
  directory listings, \<^verbatim>\<open>os.listdir\<close> of the project directory, of its \<^verbatim>\<open>plots\<close>
  subdirectory and of its \<^verbatim>\<open>tables\<close> subdirectory.
\<close>

record project_state =
  config :: project
  project_listing :: "string list"
  plots_listing :: "string list"
  tables_listing :: "string list"

text \<open>\<^verbatim>\<open>Project.list_data_files\<close>: the entries of the project directory ending in .csv.\<close>

definition list_data_files :: "project_state \<Rightarrow> string list" where
  "list_data_files ps = filter (\<lambda>file. endswith file ''.csv'') (project_listing ps)"

text \<open>The two attributes of \<^verbatim>\<open>Analyzer\<close> that the phase computation reads and writes.\<close>

record analyzer =
  current_project :: "project_state option"
  analysis_phase :: int

text \<open>
  \<^verbatim>\<open>Analyzer.update_analysis_phase\<close>. The result is the returned value, \<open>None\<close> where the
  Python function falls off its end and returns \<^verbatim>\<open>None\<close>, and the analyzer with its
  \<^verbatim>\<open>analysis_phase\<close> attribute as the call leaves it.
\<close>

definition update_analysis_phase :: "analyzer \<Rightarrow> int option \<times> analyzer" where
  "update_analysis_phase self =
     (case current_project self of
        None \<Rightarrow> (Some 0, self\<lparr>analysis_phase := 0\<rparr>)
      | Some ps \<Rightarrow>
          if ''employee_addresses.csv'' \<notin> set (list_data_files ps) then
            (Some 1, self\<lparr>analysis_phase := 1\<rparr>)
          else if ''employee_addresses.csv'' \<in> set (list_data_files ps)
                  \<and> ''office_addresses.csv'' \<in> set (list_data_files ps) then
            (if ''employee_gps.csv'' \<in> set (list_data_files ps)
                  \<and> ''office_gps.csv'' \<in> set (list_data_files ps) then
               (if ''gps_fuzz.csv'' \<in> set (list_data_files ps)
                     \<or> use_gps_fuzzing (config ps) = PyBool False
                     \<or> use_gps_fuzzing (config ps) = PyStr ''False'' then
                  (if ''commute_data.csv'' \<in> set (list_data_files ps) then
                     (if ''plots'' \<in> set (project_listing ps)
                           \<and> ''graphs.json'' \<in> set (plots_listing ps) then
                        (if ''tables'' \<in> set (project_listing ps)
                              \<and> ''tables.json'' \<in> set (tables_listing ps) then
                           (Some 6, self\<lparr>analysis_phase := 6\<rparr>)
                         else (Some 6, self\<lparr>analysis_phase := 6\<rparr>))
                      else (Some 5, self\<lparr>analysis_phase := 5\<rparr>))
                   else (Some 4, self\<lparr>analysis_phase := 4\<rparr>))
                else (Some 3, self\<lparr>analysis_phase := 3\<rparr>))
             else (Some 2, self\<lparr>analysis_phase := 2\<rparr>))
          else (None, self))"

text \<open>A project whose directory holds the employee addresses and nothing else.\<close>

definition employees_only :: project_state where
  "employees_only =
     \<lparr>config = default_project, project_listing = [''project.json'', ''employee_addresses.csv'', ''plots''],
      plots_listing = [], tables_listing = []\<rparr>"

subsection \<open>Rate limiting\<close>

text \<open>
  The throttle attributes set by \<^verbatim>\<open>Analyzer.__init__\<close>. Instants and durations are in
  seconds; \<open>last_call\<close> is an instant.
\<close>

record throttle =
  api_rate_limit :: int
  sleep_time :: real
  last_call :: real

definition init_throttle :: "real \<Rightarrow> throttle" where
  "init_throttle now =
     (let limit = 300; st = 60 / real_of_int limit
      in \<lparr>api_rate_limit = limit, sleep_time = st, last_call = now - st\<rparr>)"

text \<open>
  The attribute \<^verbatim>\<open>seconds\<close> of a \<^verbatim>\<open>timedelta\<close>: the whole seconds of the difference
  within the day, between 0 and 86399.
\<close>

definition timedelta_seconds :: "real \<Rightarrow> int" where
  "timedelta_seconds delta = \<lfloor>delta\<rfloor> mod 86400"

definition ValueError :: pyexc where
  "ValueError = PyExc ''ValueError'' ''sleep length must be non-negative''"

text \<open>
  \<^verbatim>\<open>Analyzer.sleepif\<close>. It reads the clock twice (\<open>now1\<close> in the test, \<open>now2\<close> in the
  argument of \<^verbatim>\<open>sleep\<close>), returns the time slept, and assigns nothing: no statement
  of analyzer.py other than \<^verbatim>\<open>__init__\<close> assigns \<^verbatim>\<open>self.last_call\<close>, so the
  throttle is the same after the call.
\<close>

definition sleepif :: "throttle \<Rightarrow> real \<Rightarrow> real \<Rightarrow> pyexc + real" where
  "sleepif self now1 now2 =
     (if real_of_int (timedelta_seconds (now1 - last_call self)) < sleep_time self then
        (let secs = sleep_time self - real_of_int (timedelta_seconds (now2 - last_call self))
         in if secs < 0 then Inl ValueError else Inr secs)
      else Inr 0)"

text \<open>
  A batch of provider calls as \<^verbatim>\<open>get_commute_data\<close> issues them: \<^verbatim>\<open>self.sleepif()\<close>,
  then the call. \<open>clock\<close> is the instant at which the throttle is entered, each element of
  the list the time one provider call takes; the result lists the instants at which
  each call starts and ends. The two clock reads of the throttle are taken at the same
  instant and the rest of the loop body takes no time.
\<close>

fun throttled_calls :: "throttle \<Rightarrow> real \<Rightarrow> real list \<Rightarrow> pyexc + (real \<times> real) list" where
  "throttled_calls self clock [] = Inr []"
| "throttled_calls self clock (d # ds) =
     (case sleepif self clock clock of
        Inl e \<Rightarrow> Inl e
      | Inr secs \<Rightarrow>
          (let start = clock + secs; finish = start + d
           in case throttled_calls self finish ds of
                Inl e \<Rightarrow> Inl e
              | Inr rest \<Rightarrow> Inr ((start, finish) # rest)))"

subsection \<open>Columns of data frames\<close>

text \<open>
  The difference of two columns of data frames that have the same index, as in
  \<^verbatim>\<open>cost_values[i]['cost'] - base_costs['cost']\<close>: row by row.
\<close>

definition series_sub :: "real list \<Rightarrow> real list \<Rightarrow> real list" where
  "series_sub xs ys = map (\<lambda>(x, y). x - y) (zip xs ys)"

subsection \<open>Parsing durations\<close>

text \<open>
  A Python string is modelled as a list of characters with code points below 256. Among
  these, \<^verbatim>\<open>\d\<close> matches the ten ASCII digits, \<^verbatim>\<open>\s\<close> the characters for which
  \<^verbatim>\<open>str.isspace\<close> holds, and under \<^verbatim>\<open>re.IGNORECASE\<close> a lower-case ASCII letter of the
  pattern matches itself and its upper-case form.
\<close>

definition is_digit :: "char \<Rightarrow> bool" where
  "is_digit c = (c \<in> set ''0123456789'')"

definition is_space :: "char \<Rightarrow> bool" where
  "is_space c = (c \<in> set [CHR 0x20, CHR 0x09, CHR 0x0A, CHR 0x0B, CHR 0x0C, CHR 0x0D,
                            CHR 0x1C, CHR 0x1D, CHR 0x1E, CHR 0x1F, CHR 0x85, CHR 0xA0])"

definition ascii_lower :: "char \<Rightarrow> char" where
  "ascii_lower c =
     (case map_of (zip ''ABCDEFGHIJKLMNOPQRSTUVWXYZ'' ''abcdefghijklmnopqrstuvwxyz'') c of
        Some l \<Rightarrow> l
      | None \<Rightarrow> c)"

text \<open>
  A literal of the pattern (lower-case letters) against the start of the string, ignoring
  case: the text matched, as it stands in the string, and the rest.
\<close>

fun match_literal :: "string \<Rightarrow> string \<Rightarrow> (string \<times> string) option" where
  "match_literal [] s = Some ([], s)"
| "match_literal (p # ps) [] = None"
| "match_literal (p # ps) (c # cs) =
     (if ascii_lower c = p then
        (case match_literal ps cs of
           Some (m, r) \<Rightarrow> Some (c # m, r)
         | None \<Rightarrow> None)
      else None)"

text \<open>
  The alternation of the pattern, in its order. What follows it, \<^verbatim>\<open>s?\<close>, matches
  anything, so the first alternative that matches is the one taken.
\<close>

definition time_units :: "string list" where
  "time_units = [''hour'', ''minute'', ''second'', ''min'', ''sec'', ''hrs'', ''hours'',
                 ''minutes'', ''mins'', ''seconds'']"

fun match_alternatives :: "string list \<Rightarrow> string \<Rightarrow> (string \<times> string) option" where
  "match_alternatives [] s = None"
| "match_alternatives (p # ps) s =
     (case match_literal p s of
        Some r \<Rightarrow> Some r
      | None \<Rightarrow> match_alternatives ps s)"

text \<open>The trailing \<^verbatim>\<open>s?\<close>: greedy, and nothing follows it.\<close>

definition match_optional_s :: "string \<Rightarrow> string" where
  "match_optional_s s =
     (case s of
        [] \<Rightarrow> []
      | c # cs \<Rightarrow> if ascii_lower c = CHR ''s'' then cs else s)"

text \<open>
  The pattern
  \<^verbatim>\<open>(\d+)\s*(hour|minute|second|min|sec|hrs|hours|minutes|mins|seconds)s?\<close>
  against the start of the string: the two groups and the number of characters matched.
  \<^verbatim>\<open>\d+\<close> and \<^verbatim>\<open>\s*\<close> are greedy; giving back a digit or a space leaves a digit or a
  space where the unit must start, so backtracking finds no further match.
\<close>

definition match_time_token :: "string \<Rightarrow> (string \<times> string \<times> nat) option" where
  "match_time_token s =
     (let amount = takeWhile is_digit s;
          r1 = dropWhile is_digit s;
          r2 = dropWhile is_space r1
      in if amount = [] then None
         else (case match_alternatives time_units r2 of
                 None \<Rightarrow> None
               | Some (unit, r3) \<Rightarrow>
                   Some (amount, unit, length s - length (match_optional_s r3))))"

text \<open>
  \<^verbatim>\<open>re.findall\<close> for that pattern: the matches from left to right, without overlap.
  \<open>skip\<close> counts the characters of the last match still to pass over.
\<close>

fun findall_from :: "nat \<Rightarrow> string \<Rightarrow> (string \<times> string) list" where
  "findall_from skip [] = []"
| "findall_from (Suc skip) (c # cs) = findall_from skip cs"
| "findall_from 0 (c # cs) =
     (case match_time_token (c # cs) of
        Some (amount, unit, n) \<Rightarrow> (amount, unit) # findall_from (n - 1) cs
      | None \<Rightarrow> findall_from 0 cs)"

definition findall_time :: "string \<Rightarrow> (string \<times> string) list" where
  "findall_time time_string = findall_from 0 time_string"

text \<open>\<^verbatim>\<open>int(amount)\<close> for a string of ASCII digits.\<close>

definition digit_value :: "char \<Rightarrow> int" where
  "digit_value c =
     (case map_of (zip ''0123456789'' [0, 1, 2, 3, 4, 5, 6, 7, 8, 9]) c of
        Some d \<Rightarrow> d
      | None \<Rightarrow> 0)"

definition int_of_digits :: "string \<Rightarrow> int" where
  "int_of_digits amount = foldl (\<lambda>n c. 10 * n + digit_value c) 0 amount"

record time_values =
  hours :: int
  minutes :: int
  seconds :: int

text \<open>The loop over the matches; \<^verbatim>\<open>startswith\<close> and \<^verbatim>\<open>==\<close> compare case-sensitively.\<close>

fun accumulate_time :: "(string \<times> string) list \<Rightarrow> time_values \<Rightarrow> time_values" where
  "accumulate_time [] tv = tv"
| "accumulate_time ((amount, unit) # matches) tv =
     accumulate_time matches
       (if startswith unit ''hour'' \<or> unit = ''hrs'' then tv\<lparr>hours := hours tv + int_of_digits amount\<rparr>
        else if startswith unit ''min'' then tv\<lparr>minutes := minutes tv + int_of_digits amount\<rparr>
        else if startswith unit ''sec'' then tv\<lparr>seconds := seconds tv + int_of_digits amount\<rparr>
        else tv)"

text \<open>\<^verbatim>\<open>Analyzer.convert_stringtime_to_minutes\<close>.\<close>

definition convert_stringtime_to_minutes :: "string \<Rightarrow> int" where
  "convert_stringtime_to_minutes time_string =
     (let matches = findall_time time_string;
          tv = accumulate_time matches \<lparr>hours = 0, minutes = 0, seconds = 0\<rparr>;
          total_minutes = 0 + hours tv * 60 + minutes tv
      in total_minutes)"

subsection \<open>Costs of the employees at an office\<close>

text \<open>
  Rows of the data frames of \<^verbatim>\<open>generate_graphs\<close>: an employee (\<^verbatim>\<open>emp\<close>) has a latitude
  and a longitude, an office has an address as well, and a row built by
  \<^verbatim>\<open>get_base_cost_df\<close> has the columns \<^verbatim>\<open>latitude\<close>, \<^verbatim>\<open>longitude\<close>, \<^verbatim>\<open>office\<close> and
  \<^verbatim>\<open>cost\<close>.
\<close>

record gps_row =
  latitude :: real
  longitude :: real

record office_row = gps_row +
  address :: string

record cost_row = gps_row +
  office :: string
  cost :: real

definition IndexError :: pyexc where
  "IndexError = PyExc ''IndexError'' ''index 0 is out of bounds for axis 0 with size 0''"

definition KeyError :: pyexc where
  "KeyError = PyExc ''KeyError'' ''cost''"

text \<open>
  \<^verbatim>\<open>Graphing.filter_drive_distance\<close> and its local function \<^verbatim>\<open>check_d\<close>: an employee
  passes when some row of the commute data with the employee as origin and one of the
  targets as destination has its miles within the radius (beyond it when \<open>inside\<close> is
  false).
\<close>

definition check_d :: "real \<Rightarrow> real \<Rightarrow> office_row list \<Rightarrow> real \<Rightarrow> commute_row list \<Rightarrow> bool \<Rightarrow> bool" where
  "check_d lat lon targets radius commute_data inside =
     list_ex (\<lambda>row.
        list_ex (\<lambda>row2.
             if inside \<and> miles row2 \<le> radius then True
             else if \<not> inside \<and> miles row2 > radius then True
             else False)
          (filter (\<lambda>r. origin_lat r = lat \<and> origin_long r = lon
                        \<and> destination_lat r = latitude row \<and> destination_long r = longitude row)
             commute_data))
       targets"

definition filter_drive_distance ::
  "gps_row list \<Rightarrow> office_row list \<Rightarrow> real \<Rightarrow> commute_row list \<Rightarrow> bool \<Rightarrow> gps_row list" where
  "filter_drive_distance sources targets radius commute_data inside =
     map (\<lambda>s. \<lparr>latitude = latitude s, longitude = longitude s\<rparr>)
       (filter (\<lambda>s. check_d (latitude s) (longitude s) targets radius commute_data inside) sources)"

text \<open>\<^verbatim>\<open>get_base_cost_df\<close>: every employee, at cost 0.\<close>

definition get_base_cost_df :: "gps_row list \<Rightarrow> string \<Rightarrow> cost_row list" where
  "get_base_cost_df emp officeaddr =
     map (\<lambda>row. \<lparr>latitude = latitude row, longitude = longitude row,
                  office = officeaddr, cost = 0\<rparr>) emp"

text \<open>
  The lookup \<^verbatim>\<open>commute_data[(origin_lat == ...) & (origin_long == ...) &
  (office_address == ...)]['commute_cost'].values[0]\<close>: the first matching row, and
  IndexError when there is none.
\<close>

definition lookup_commute_cost :: "commute_row list \<Rightarrow> real \<Rightarrow> real \<Rightarrow> string \<Rightarrow> pyexc + real" where
  "lookup_commute_cost commute_data lat lon officeaddr =
     (case filter (\<lambda>r. origin_lat r = lat \<and> origin_long r = lon \<and> office_address r = officeaddr)
             commute_data of
        [] \<Rightarrow> Inl IndexError
      | r # rest \<Rightarrow> Inr (commute_cost r))"

text \<open>
  The loop over the employees within the cut-off (lines 1287 to 1290 and 1300 to 1303):
  the cost found is written into every row of the cost frame with that latitude and
  longitude.
\<close>

fun fill_costs :: "commute_row list \<Rightarrow> string \<Rightarrow> gps_row list \<Rightarrow> cost_row list \<Rightarrow> pyexc + cost_row list" where
  "fill_costs commute_data officeaddr [] costs = Inr costs"
| "fill_costs commute_data officeaddr (row # emp_within) costs =
     (case lookup_commute_cost commute_data (latitude row) (longitude row) officeaddr of
        Inl e \<Rightarrow> Inl e
      | Inr c \<Rightarrow>
          fill_costs commute_data officeaddr emp_within
            (map (\<lambda>r. if latitude r = latitude row \<and> longitude r = longitude row
                       then r\<lparr>cost := c\<rparr> else r) costs))"

definition office_costs :: "project \<Rightarrow> gps_row list \<Rightarrow> office_row \<Rightarrow> commute_row list \<Rightarrow> pyexc + cost_row list" where
  "office_costs p emp office_r commute_data =
     fill_costs commute_data (address office_r)
       (filter_drive_distance emp [office_r] (commute_range_cut_off p) commute_data True)
       (get_base_cost_df emp (address office_r))"

text \<open>The loop over the other offices (lines 1294 to 1304).\<close>

fun other_office_costs ::
  "project \<Rightarrow> gps_row list \<Rightarrow> office_row list \<Rightarrow> commute_row list \<Rightarrow> pyexc + cost_row list list" where
  "other_office_costs p emp [] commute_data = Inr []"
| "other_office_costs p emp (office_r # other_offices) commute_data =
     (case office_costs p emp office_r commute_data of
        Inl e \<Rightarrow> Inl e
      | Inr tmp_costs \<Rightarrow>
          (case other_office_costs p emp other_offices commute_data of
             Inl e \<Rightarrow> Inl e
           | Inr cost_values \<Rightarrow> Inr (tmp_costs # cost_values)))"

text \<open>
  The column \<^verbatim>\<open>['cost']\<close> of a cost frame. A frame built from an empty list of rows has
  no columns, and the access raises KeyError.
\<close>

definition cost_column :: "cost_row list \<Rightarrow> pyexc + real list" where
  "cost_column frame = (if frame = [] then Inl KeyError else Inr (map cost frame))"

text \<open>
  Boolean indexing of a column, \<^verbatim>\<open>series[mask]\<close>: the values where the mask is true, in
  order.
\<close>

definition select_mask :: "real list \<Rightarrow> bool list \<Rightarrow> real list" where
  "select_mask series flags = map fst (filter snd (zip series flags))"

text \<open>
  The headline differentials (lines 1310 to 1312), one list for each office other than
  the current one: \<^verbatim>\<open>cost_values[i]['cost'] - base_costs['cost']\<close>.
\<close>

fun headline_differentials :: "cost_row list list \<Rightarrow> cost_row list \<Rightarrow> pyexc + real list list" where
  "headline_differentials [] base_costs = Inr []"
| "headline_differentials (cost_frame # cost_values) base_costs =
     (case cost_column cost_frame of
        Inl e \<Rightarrow> Inl e
      | Inr alt \<Rightarrow>
          (case cost_column base_costs of
             Inl e \<Rightarrow> Inl e
           | Inr base \<Rightarrow>
               (case headline_differentials cost_values base_costs of
                  Inl e \<Rightarrow> Inl e
                | Inr ds \<Rightarrow> Inr (series_sub alt base # ds))))"

subsection \<open>Histogram axes\<close>

text \<open>
  What \<^verbatim>\<open>plt.subplots(rows, cols)\<close> returns as \<^verbatim>\<open>ax\<close>: a single Axes object for one
  row and one column, a one-dimensional array of Axes when only one of the two is 1,
  and a two-dimensional array otherwise. Calls into matplotlib are taken to succeed on
  the Axes they are given; what is modelled of plotting is this shape and the indexing
  of it.
\<close>

datatype axes = Axes | Axes1D nat | Axes2D nat nat

definition ValueError_rows :: pyexc where
  "ValueError_rows = PyExc ''ValueError'' ''Number of rows must be a positive integer, not 0''"

definition ValueError_columns :: pyexc where
  "ValueError_columns = PyExc ''ValueError'' ''Number of columns must be a positive integer, not 0''"

definition subplots :: "nat \<Rightarrow> nat \<Rightarrow> pyexc + axes" where
  "subplots rows cols =
     (if rows = 0 then Inl ValueError_rows
      else if cols = 0 then Inl ValueError_columns
      else if rows = 1 \<and> cols = 1 then Inr Axes
      else if rows = 1 then Inr (Axes1D cols)
      else if cols = 1 then Inr (Axes1D rows)
      else Inr (Axes2D rows cols))"

definition TypeError_subscript :: pyexc where
  "TypeError_subscript =
     PyExc ''TypeError'' ([CHR 0x27] @ ''Axes'' @ [CHR 0x27] @ '' object is not subscriptable'')"

definition IndexError_bounds :: pyexc where
  "IndexError_bounds = PyExc ''IndexError'' ''index is out of bounds''"

definition IndexError_dimensions :: pyexc where
  "IndexError_dimensions =
     PyExc ''IndexError'' ''too many indices for array: array is 1-dimensional, but 2 were indexed''"

definition AttributeError_hist :: pyexc where
  "AttributeError_hist =
     PyExc ''AttributeError''
       ([CHR 0x27] @ ''numpy.ndarray'' @ [CHR 0x27] @ '' object has no attribute ''
          @ [CHR 0x27] @ ''hist'' @ [CHR 0x27])"

text \<open>\<^verbatim>\<open>ax[i]\<close>.\<close>

definition axes_item :: "axes \<Rightarrow> nat \<Rightarrow> pyexc + axes" where
  "axes_item ax i =
     (case ax of
        Axes \<Rightarrow> Inl TypeError_subscript
      | Axes1D n \<Rightarrow> if i < n then Inr Axes else Inl IndexError_bounds
      | Axes2D n m \<Rightarrow> if i < n then Inr (Axes1D m) else Inl IndexError_bounds)"

text \<open>\<^verbatim>\<open>ax[r,c]\<close>.\<close>

definition axes_item2 :: "axes \<Rightarrow> nat \<Rightarrow> nat \<Rightarrow> pyexc + axes" where
  "axes_item2 ax r c =
     (case ax of
        Axes \<Rightarrow> Inl TypeError_subscript
      | Axes1D n \<Rightarrow> Inl IndexError_dimensions
      | Axes2D n m \<Rightarrow> if r < n \<and> c < m then Inr Axes else Inl IndexError_bounds)"

text \<open>The attribute \<^verbatim>\<open>.hist\<close> of what the indexing gave: an Axes has it, an array has not.\<close>

definition axes_hist :: "axes \<Rightarrow> pyexc + unit" where
  "axes_hist a = (case a of Axes \<Rightarrow> Inr () | Axes1D n \<Rightarrow> Inl AttributeError_hist
                  | Axes2D n m \<Rightarrow> Inl AttributeError_hist)"

text \<open>
  \<^verbatim>\<open>Graphing.filter_radius\<close> and its local function \<^verbatim>\<open>check_r\<close>. The great-circle
  distance \<^verbatim>\<open>Graphing.haversine\<close> is floating-point trigonometry; it is a parameter
  here.
\<close>

type_synonym distance_fn = "real \<Rightarrow> real \<Rightarrow> real \<Rightarrow> real \<Rightarrow> real"

definition check_r :: "distance_fn \<Rightarrow> real \<Rightarrow> real \<Rightarrow> office_row list \<Rightarrow> real \<Rightarrow> bool \<Rightarrow> bool" where
  "check_r haversine lat lon targets radius inside =
     list_ex (\<lambda>row.
        if inside then
          (if haversine lat lon (latitude row) (longitude row) \<le> radius then True else False)
        else
          (if haversine lat lon (latitude row) (longitude row) > radius then True else False))
       targets"

definition filter_radius ::
  "distance_fn \<Rightarrow> gps_row list \<Rightarrow> office_row list \<Rightarrow> real \<Rightarrow> bool \<Rightarrow> gps_row list" where
  "filter_radius haversine sources targets radius inside =
     map (\<lambda>s. \<lparr>latitude = latitude s, longitude = longitude s\<rparr>)
       (filter (\<lambda>s. check_r haversine (latitude s) (longitude s) targets radius inside) sources)"

definition KeyError_latitude :: pyexc where
  "KeyError_latitude = PyExc ''KeyError'' ''latitude''"

text \<open>
  \<^verbatim>\<open>Graphing.plot_preamble\<close> with a \<^verbatim>\<open>cutoff_radius\<close>: the employees within the linear
  radius of one of the offices. The frame is built from a list of rows; when the list is
  empty the frame has no columns and \<^verbatim>\<open>filtered_emp_points['latitude']\<close> raises KeyError.
\<close>

definition plot_preamble ::
  "distance_fn \<Rightarrow> gps_row list \<Rightarrow> office_row list \<Rightarrow> real \<Rightarrow> pyexc + gps_row list" where
  "plot_preamble haversine emp offices cutoff_radius =
     (let filtered_emp_points = filter_radius haversine emp offices cutoff_radius True
      in if filtered_emp_points = [] then Inl KeyError_latitude else Inr filtered_emp_points)"

definition IndexError_iloc :: pyexc where
  "IndexError_iloc = PyExc ''IndexError'' ''single positional indexer is out-of-bounds''"

text \<open>
  \<^verbatim>\<open>Graphing.get_histogram\<close> as the two differential graphs call it, with
  \<^verbatim>\<open>manual_plot=True\<close>, a \<^verbatim>\<open>cutoff_radius\<close> and no \<^verbatim>\<open>commute_radius\<close>: the preamble,
  the values (\<^verbatim>\<open>get_commute_values\<close> reads \<^verbatim>\<open>office.iloc[0]\<close> unless
  \<^verbatim>\<open>override_values\<close> is given), and the grid of axes, which is what the caller gets.
  The loop that labels the axes reaches them through the local function \<^verbatim>\<open>axf\<close>, which
  tells the three shapes apart, and raises nothing at the two calls modelled here (no
  value, and two values in two columns).
\<close>

definition get_histogram ::
  "distance_fn \<Rightarrow> gps_row list \<Rightarrow> office_row list \<Rightarrow> real \<Rightarrow> bool \<Rightarrow> nat \<Rightarrow> nat \<Rightarrow> pyexc + axes" where
  "get_histogram haversine emp office_rows cutoff_radius override_values rows cols =
     (case plot_preamble haversine emp office_rows cutoff_radius of
        Inl e \<Rightarrow> Inl e
      | Inr filtered_emp_points \<Rightarrow>
          if \<not> override_values \<and> office_rows = [] then Inl IndexError_iloc
          else subplots rows cols)"

subsection \<open>The commute cost differential graph\<close>

definition ValueError_min :: pyexc where
  "ValueError_min = PyExc ''ValueError'' ''min() arg is an empty sequence''"

text \<open>
  The loop over the alternative offices that follows (lines 1332 to 1404). For office
  \<open>i\<close> it first draws on \<^verbatim>\<open>ax[i]\<close>, then computes
  \<^verbatim>\<open>mask = (cost_values[i]['cost'] != 0) & (base_costs['cost'] != 0)\<close> and
  \<^verbatim>\<open>diffs2 = (cost_values[i]['cost'] - base_costs['cost'])[mask].tolist()\<close>, then the
  statistics of \<^verbatim>\<open>diffs2\<close>, of which \<^verbatim>\<open>min(diffs2)\<close> raises ValueError on an empty list.
\<close>

fun rotation_loop :: "axes \<Rightarrow> nat \<Rightarrow> cost_row list list \<Rightarrow> cost_row list \<Rightarrow> pyexc + real list list" where
  "rotation_loop ax i [] base_costs = Inr []"
| "rotation_loop ax i (cost_frame # cost_values) base_costs =
     (case axes_item ax i of
        Inl e \<Rightarrow> Inl e
      | Inr a \<Rightarrow>
          (case axes_hist a of
             Inl e \<Rightarrow> Inl e
           | Inr u \<Rightarrow>
               (case cost_column cost_frame of
                  Inl e \<Rightarrow> Inl e
                | Inr alt \<Rightarrow>
                    (case cost_column base_costs of
                       Inl e \<Rightarrow> Inl e
                     | Inr base \<Rightarrow>
                         (let both_nonzero = map (\<lambda>(a, b). a \<noteq> 0 \<and> b \<noteq> 0) (zip alt base);
                              differences = select_mask (series_sub alt base) both_nonzero
                          in if differences = [] then Inl ValueError_min
                             else (case rotation_loop ax (Suc i) cost_values base_costs of
                                     Inl e \<Rightarrow> Inl e
                                   | Inr rest \<Rightarrow> Inr (differences # rest)))))))"

text \<open>
  The two lists of one alternative office: \<open>diffs\<close> is the headline differential,
  \<open>diffs2\<close> the one that leaves out the employees whose cost is 0 at either office.
\<close>

record differential =
  diffs :: "real list"
  diffs2 :: "real list"

text \<open>
  \<^verbatim>\<open>generate_graphs\<close>, graph \<^verbatim>\<open>eccda\<close> (lines 1265 to 1404), up to the point where the
  figure is saved: the two lists of each office other than the first one, which is the
  current office, or the exception that ends the graph. \<^verbatim>\<open>offices.iloc[0]\<close> raises
  IndexError on an empty frame. The histogram is asked for one row for each other
  office and one column.
\<close>

definition commute_cost_differential_analysis ::
  "distance_fn \<Rightarrow> project \<Rightarrow> gps_row list \<Rightarrow> office_row list \<Rightarrow> commute_row list
     \<Rightarrow> pyexc + differential list" where
  "commute_cost_differential_analysis haversine p emp offices commute_data =
     (case offices of
        [] \<Rightarrow> Inl IndexError_iloc
      | current_office # other_offices \<Rightarrow>
          (case office_costs p emp current_office commute_data of
             Inl e \<Rightarrow> Inl e
           | Inr base_costs \<Rightarrow>
               (case other_office_costs p emp other_offices commute_data of
                  Inl e \<Rightarrow> Inl e
                | Inr cost_values \<Rightarrow>
                    (case headline_differentials cost_values base_costs of
                       Inl e \<Rightarrow> Inl e
                     | Inr ds \<Rightarrow>
                         (case get_histogram haversine emp other_offices (commute_range_cut_off p)
                                 False (length other_offices) 1 of
                            Inl e \<Rightarrow> Inl e
                          | Inr ax \<Rightarrow>
                              (case rotation_loop ax 0 cost_values base_costs of
                                 Inl e \<Rightarrow> Inl e
                               | Inr ds2 \<Rightarrow>
                                   Inr (map (\<lambda>(d, d2). \<lparr>diffs = d, diffs2 = d2\<rparr>) (zip ds ds2))))))))"

text \<open>
  What the claim says of one office, to compare with the frames the code builds: the
  list of costs has one entry for each employee, the commute cost of the matrix for an
  employee within the cut-off of the office and 0 for an employee outside it.
\<close>

definition costs_in_scope_or_zero ::
  "project \<Rightarrow> commute_row list \<Rightarrow> office_row \<Rightarrow> gps_row list \<Rightarrow> real list \<Rightarrow> bool" where
  "costs_in_scope_or_zero p commute_data office_r emp costs =
     list_all2 (\<lambda>e c.
         if check_d (latitude e) (longitude e) [office_r] (commute_range_cut_off p) commute_data True
         then lookup_commute_cost commute_data (latitude e) (longitude e) (address office_r) = Inr c
         else c = 0)
       emp costs"

text \<open>
  Three offices and two employees. The first employee is 10 miles by road from office
  A, at a cost of 10, and 80 miles from office B, beyond the cut-off of 50; the second
  is within the cut-off of both, at costs 5 and 45. Both are within the cut-off of
  office C, at costs 6 and 7.
\<close>

definition office_A :: office_row where
  "office_A = \<lparr>latitude = 40, longitude = - 75, address = ''A''\<rparr>"

definition office_B :: office_row where
  "office_B = \<lparr>latitude = 40.5, longitude = - 75.5, address = ''B''\<rparr>"

definition office_C :: office_row where
  "office_C = \<lparr>latitude = 40.1, longitude = - 75.1, address = ''C''\<rparr>"

definition two_employees :: "gps_row list" where
  "two_employees = [\<lparr>latitude = 40.05, longitude = - 75.05\<rparr>, \<lparr>latitude = 40.02, longitude = - 75.02\<rparr>]"

definition matrix_row :: "string \<Rightarrow> real \<Rightarrow> real \<Rightarrow> real \<Rightarrow> real \<Rightarrow> real \<Rightarrow> real \<Rightarrow> commute_row" where
  "matrix_row a olat olong dlat dlong m c =
     \<lparr>office_address = a, origin_lat = olat, origin_long = olong, destination_lat = dlat,
      destination_long = dlong, miles = m, base_duration = 30, base_emissions = 1,
      commute_cost = c, slot_duration_in_traffic = (\<lambda>s. 40), slot_emissions = (\<lambda>s. 1)\<rparr>"

definition sample_matrix :: "commute_row list" where
  "sample_matrix =
     [matrix_row ''A'' 40.05 (- 75.05) 40 (- 75) 10 10, matrix_row ''A'' 40.02 (- 75.02) 40 (- 75) 5 5,
      matrix_row ''B'' 40.05 (- 75.05) 40.5 (- 75.5) 80 80, matrix_row ''B'' 40.02 (- 75.02) 40.5 (- 75.5) 45 45,
      matrix_row ''C'' 40.05 (- 75.05) 40.1 (- 75.1) 6 6, matrix_row ''C'' 40.02 (- 75.02) 40.1 (- 75.1) 7 7]"

text \<open>
  A stand-in for the great-circle distance in the examples: 69 miles for each degree of
  latitude and of longitude, which is not less than the great-circle distance.
\<close>

definition grid_miles :: distance_fn where
  "grid_miles lat1 lon1 lat2 lon2 = 69 * (\<bar>lat1 - lat2\<bar> + \<bar>lon1 - lon2\<bar>)"

subsection \<open>The attrition risk graph\<close>

text \<open>
  \<^verbatim>\<open>generate_graphs\<close>, graph \<^verbatim>\<open>teccda\<close>, lines 2025 to 2027: the two counts are Python
  ints, their product is an int, and the division raises when it is zero.
\<close>

definition daily_threshold :: "project \<Rightarrow> pyexc + real" where
  "daily_threshold p =
     (let threshold = turnover_threshold_due_to_cost p * median_salary p
      in py_truediv threshold (real_of_int (commute_days_per_week p * commute_weeks_per_year p)))"

text \<open>The counting loop, \<^verbatim>\<open>for each in diffs: if each > daily_threshold: above_threshold += 1\<close>.\<close>

fun count_above :: "real \<Rightarrow> real list \<Rightarrow> nat \<Rightarrow> nat" where
  "count_above dt [] above_threshold = above_threshold"
| "count_above dt (each # rest) above_threshold =
     count_above dt rest (if each > dt then above_threshold + 1 else above_threshold)"

record attrition =
  cost_threshold :: real
  above_threshold :: nat
  cost_impact :: real

text \<open>The three figures written into one cell of the plot, from the list that is counted.\<close>

definition attrition_figures :: "project \<Rightarrow> real \<Rightarrow> real list \<Rightarrow> attrition" where
  "attrition_figures p dt counted =
     (let above = count_above dt counted 0
      in \<lparr>cost_threshold = dt, above_threshold = above,
          cost_impact = real above * turnover_probability_time_cost p
                          * employee_replacement_cost p\<rparr>)"

definition IndexError_list :: pyexc where
  "IndexError_list = PyExc ''IndexError'' ''list index out of range''"

definition list_item :: "'a list \<Rightarrow> nat \<Rightarrow> pyexc + 'a" where
  "list_item xs i = (if i < length xs then Inr (xs ! i) else Inl IndexError_list)"

text \<open>
  The body of the two nested loops (lines 2032 to 2060) for office \<open>r\<close> and column \<open>c\<close>:
  the histogram is drawn on \<^verbatim>\<open>ax[r,c]\<close> from \<^verbatim>\<open>average_diffs[r]\<close>, then the employees
  above the threshold are counted, in \<^verbatim>\<open>average_diffs[r]\<close> for column 0 and in
  \<^verbatim>\<open>conservative_diffs[r]\<close> for column 1.
\<close>

definition attrition_cell ::
  "axes \<Rightarrow> project \<Rightarrow> real \<Rightarrow> real list list \<Rightarrow> real list list \<Rightarrow> nat \<Rightarrow> nat \<Rightarrow> pyexc + attrition" where
  "attrition_cell ax p dt average_diffs conservative_diffs r c =
     (case axes_item2 ax r c of
        Inl e \<Rightarrow> Inl e
      | Inr a \<Rightarrow>
          (case axes_hist a of
             Inl e \<Rightarrow> Inl e
           | Inr u \<Rightarrow>
               (case list_item average_diffs r of
                  Inl e \<Rightarrow> Inl e
                | Inr drawn \<Rightarrow>
                    if c = 0 then Inr (attrition_figures p dt drawn)
                    else (case list_item conservative_diffs r of
                            Inl e \<Rightarrow> Inl e
                          | Inr counted \<Rightarrow> Inr (attrition_figures p dt counted)))))"

text \<open>\<^verbatim>\<open>for r in range(len(other_offices)): for c in range(2):\<close> over the list of the \<open>r\<close>.\<close>

fun attrition_rows ::
  "axes \<Rightarrow> project \<Rightarrow> real \<Rightarrow> real list list \<Rightarrow> real list list \<Rightarrow> nat list \<Rightarrow> pyexc + attrition list list" where
  "attrition_rows ax p dt average_diffs conservative_diffs [] = Inr []"
| "attrition_rows ax p dt average_diffs conservative_diffs (r # rs) =
     (case attrition_cell ax p dt average_diffs conservative_diffs r 0 of
        Inl e \<Rightarrow> Inl e
      | Inr average \<Rightarrow>
          (case attrition_cell ax p dt average_diffs conservative_diffs r 1 of
             Inl e \<Rightarrow> Inl e
           | Inr conservative \<Rightarrow>
               (case attrition_rows ax p dt average_diffs conservative_diffs rs of
                  Inl e \<Rightarrow> Inl e
                | Inr rest \<Rightarrow> Inr ([average, conservative] # rest))))"

text \<open>
  \<^verbatim>\<open>generate_graphs\<close>, graph \<^verbatim>\<open>teccda\<close> (lines 2003 to 2080), from the two lists of
  differentials that \<^verbatim>\<open>get_attrition_analysis\<close> returns (one list of employees for each
  office other than the first) up to the point where the figure is saved: the bins
  (\<^verbatim>\<open>min(each)\<close> raises ValueError on an empty list of employees), the histogram grid
  with one row for each other office and two columns, the daily threshold, and the two
  cells of each row.
\<close>

definition attrition_risk_analysis ::
  "distance_fn \<Rightarrow> project \<Rightarrow> gps_row list \<Rightarrow> office_row list \<Rightarrow> real list list \<Rightarrow> real list list
     \<Rightarrow> pyexc + attrition list list" where
  "attrition_risk_analysis haversine p emp other_offices average_diffs conservative_diffs =
     (if list_ex (\<lambda>each. each = []) (average_diffs @ conservative_diffs) then Inl ValueError_min
      else (case get_histogram haversine emp other_offices (commute_range_cut_off p)
                   True (length other_offices) 2 of
              Inl e \<Rightarrow> Inl e
            | Inr ax \<Rightarrow>
                (case daily_threshold p of
                   Inl e \<Rightarrow> Inl e
                 | Inr dt \<Rightarrow>
                     attrition_rows ax p dt average_diffs conservative_diffs
                       [0..<length other_offices])))"

section \<open>Properties\<close>

lemma recoverable_never_retried:
  assumes "prov (pstate w) (src, dst, dep) = (Inl e, p')"
    and "handle_GAPI_exception excs e"
  shows "fst (get_commute_data_query excs prov w src dst dep) = Inl tuple_not_callable"
    and "call_log (snd (get_commute_data_query excs prov w src dst dep)) = call_log w @ [(src, dst, dep)]"
  using assms by (simp_all add: get_commute_data_query_def call_provider_def log_error_def sleep_backoff_def)

text \<open>
  C1 (retry once on a recoverable exception). The provider times out once and would
  answer the second call. \<^verbatim>\<open>Timeout\<close> is recoverable, the builder sleeps, but the retry
  never reaches the provider: one query is in the log, the caller gets a TypeError and
  not the answer the provider had ready.
\<close>

theorem C1_retry_never_reaches_provider:
  "handle_GAPI_exception google_api_exceptions (PyExc ''Timeout'' ''timed out'')
   \<and> fst (get_commute_data_query google_api_exceptions flaky_provider (fresh_world 0) (1, 2) (3, 4) 0)
       = Inl tuple_not_callable
   \<and> call_log (snd (get_commute_data_query google_api_exceptions flaky_provider (fresh_world 0) (1, 2) (3, 4) 0))
       = [((1, 2), (3, 4), 0)]
   \<and> backoffs (snd (get_commute_data_query google_api_exceptions flaky_provider (fresh_world 0) (1, 2) (3, 4) 0))
       = [10000]
   \<and> fst (flaky_provider 1 ((1, 2), (3, 4), 0)) = Inr sample_commute"
  by (simp add: get_commute_data_query_def call_provider_def log_error_def sleep_backoff_def
      handle_GAPI_exception_def google_api_exceptions_def flaky_provider_def fresh_world_def)

text \<open>
  C10 (an exception whose class name is not a key of the recoverability map). The handler
  answers False, and the builder raises the same exception to its caller after the one
  provider call, with no backoff and no second call.
\<close>

theorem C10_unknown_exception_not_retried:
  assumes "exc_class e \<notin> dom excs"
    and "prov (pstate w) (src, dst, dep) = (Inl e, p')"
  shows "handle_GAPI_exception excs e = False
     \<and> fst (get_commute_data_query excs prov w src dst dep) = Inl e
     \<and> call_log (snd (get_commute_data_query excs prov w src dst dep)) = call_log w @ [(src, dst, dep)]
     \<and> backoffs (snd (get_commute_data_query excs prov w src dst dep)) = backoffs w
     \<and> pstate (snd (get_commute_data_query excs prov w src dst dep)) = p'"
proof -
  from assms(1) have none: "excs (exc_class e) = None"
    by (simp add: domIff)
  then have h: "handle_GAPI_exception excs e = False"
    by (simp add: handle_GAPI_exception_def)
  with assms(2) show ?thesis
    by (simp add: get_commute_data_query_def call_provider_def log_error_def)
qed

theorem C10_unknown_exception_not_retried_witness:
  "exc_class (PyExc ''KeyError'' ''x'') \<notin> dom google_api_exceptions
   \<and> failing_provider (PyExc ''KeyError'' ''x'') (pstate (fresh_world ())) ((1, 2), (3, 4), 0)
       = (Inl (PyExc ''KeyError'' ''x''), ())
   \<and> handle_GAPI_exception google_api_exceptions (PyExc ''KeyError'' ''x'') = False
   \<and> fst (get_commute_data_query google_api_exceptions (failing_provider (PyExc ''KeyError'' ''x''))
            (fresh_world ()) (1, 2) (3, 4) 0) = Inl (PyExc ''KeyError'' ''x'')
   \<and> call_log (snd (get_commute_data_query google_api_exceptions (failing_provider (PyExc ''KeyError'' ''x''))
            (fresh_world ()) (1, 2) (3, 4) 0)) = [((1, 2), (3, 4), 0)]
   \<and> backoffs (snd (get_commute_data_query google_api_exceptions (failing_provider (PyExc ''KeyError'' ''x''))
            (fresh_world ()) (1, 2) (3, 4) 0)) = []"
proof -
  have a: "exc_class (PyExc ''KeyError'' ''x'') \<notin> dom google_api_exceptions"
    by (simp add: google_api_exceptions_def)
  have b: "failing_provider (PyExc ''KeyError'' ''x'') (pstate (fresh_world ())) ((1, 2), (3, 4), 0)
       = (Inl (PyExc ''KeyError'' ''x''), ())"
    by (simp add: failing_provider_def)
  from C10_unknown_exception_not_retried
         [where w = "fresh_world ()" and prov = "failing_provider (PyExc ''KeyError'' ''x'')", OF a b] a b
  show ?thesis
    by (simp add: fresh_world_def)
qed


subsection \<open>Traffic regime\<close>

lemma get_traffic_regime_nonzero:
  assumes "t \<noteq> 0"
  shows "get_traffic_regime p kind d t =
           Inr (if d / (t / 60) < traffic_regime_2 p then 1
                else if d / (t / 60) < traffic_regime_3 p then 2 else 3)"
  using assms by (simp add: get_traffic_regime_def truediv_def quotient_less_def)

lemma get_traffic_regime_positive:
  assumes "0 < t"
  shows "get_traffic_regime p kind d t =
           Inr (if d / (t / 60) < traffic_regime_2 p then 1
                else if d / (t / 60) < traffic_regime_3 p then 2 else 3)"
  using assms by (simp add: get_traffic_regime_nonzero)

lemma get_traffic_regime_python_zero:
  "get_traffic_regime p PythonNumbers d 0 = Inl ZeroDivisionError"
  by (simp add: get_traffic_regime_def truediv_def)

lemma get_traffic_regime_numpy_zero:
  "get_traffic_regime p NumpyFloat64 d 0 = Inr (if d < 0 then 1 else 3)"
  by (simp add: get_traffic_regime_def truediv_def quotient_less_def)

lemma get_traffic_regime_returns:
  assumes "kind = NumpyFloat64 \<or> t \<noteq> 0"
  shows "\<exists>regime. get_traffic_regime p kind d t = Inr regime"
proof (cases "t = 0")
  case True
  with assms have "kind = NumpyFloat64" by simp
  with True show ?thesis by (simp add: get_traffic_regime_numpy_zero)
next
  case False
  then show ?thesis by (simp add: get_traffic_regime_nonzero)
qed

text \<open>
  C3, as the claim states it, fails: at 20 miles and a duration of 0 minutes the
  classifier does not return regime 1, whether its operands are Python numbers or
  \<^verbatim>\<open>numpy.float64\<close> values.
\<close>

theorem C3_zero_duration_counterexample:
  "get_traffic_regime default_project PythonNumbers 20 0 \<noteq> Inr 1
   \<and> get_traffic_regime default_project NumpyFloat64 20 0 \<noteq> Inr 1"
  by (simp add: get_traffic_regime_def truediv_def quotient_less_def)

text \<open>
  C3, amended: with a duration of 0 the classifier is not guarded. For every
  configuration and every distance, with Python numbers the division raises
  ZeroDivisionError and no regime is returned; with a \<^verbatim>\<open>numpy.float64\<close> operand the
  quotient is inf, nan or -inf and the classifier returns regime 3 for a distance that
  is not negative and regime 1 for a negative one.
\<close>

theorem C3_zero_duration_unguarded:
  "get_traffic_regime p PythonNumbers distance 0 = Inl ZeroDivisionError
   \<and> truediv NumpyFloat64 distance (0 / 60)
        = Inr (if 0 < distance then PosInf else if distance < 0 then NegInf else NaN)
   \<and> get_traffic_regime p NumpyFloat64 distance 0 = Inr (if distance < 0 then 1 else 3)"
  by (simp add: get_traffic_regime_def truediv_def quotient_less_def)

text \<open>
  C8 (monotonicity of the classifier). For a strictly positive duration and a
  non-negative distance, and for either kind of operands, the classifier returns a
  regime, a larger distance at the same duration gives a regime at least as high, and
  so does a shorter (still positive) duration at the same distance.
\<close>

theorem C8_regime_monotonic:
  assumes "0 < t" and "0 \<le> d"
  shows "(d \<le> d' \<longrightarrow>
            (\<exists>r r'. get_traffic_regime p kind d t = Inr r
                \<and> get_traffic_regime p kind d' t = Inr r' \<and> r \<le> r'))
       \<and> (0 < t' \<and> t' \<le> t \<longrightarrow>
            (\<exists>r r'. get_traffic_regime p kind d t = Inr r
                \<and> get_traffic_regime p kind d t' = Inr r' \<and> r \<le> r'))"
proof (intro conjI impI)
  assume le: "d \<le> d'"
  from assms(1) le have "d / (t / 60) \<le> d' / (t / 60)"
    by (simp add: divide_right_mono)
  then show "\<exists>r r'. get_traffic_regime p kind d t = Inr r
      \<and> get_traffic_regime p kind d' t = Inr r' \<and> r \<le> r'"
    using assms(1) by (simp add: get_traffic_regime_positive)
next
  assume t': "0 < t' \<and> t' \<le> t"
  then have "d / (t / 60) \<le> d / (t' / 60)"
    using assms(2) by (intro divide_left_mono) (simp_all add: divide_right_mono)
  then show "\<exists>r r'. get_traffic_regime p kind d t = Inr r
      \<and> get_traffic_regime p kind d t' = Inr r' \<and> r \<le> r'"
    using assms(1) t' by (simp add: get_traffic_regime_positive)
qed

theorem C8_regime_monotonic_witness:
  "get_traffic_regime default_project PythonNumbers 20 40 = Inr 1
   \<and> get_traffic_regime default_project PythonNumbers 30 40 = Inr 2
   \<and> get_traffic_regime default_project PythonNumbers 20 20 = Inr 3
   \<and> (\<exists>r r'. get_traffic_regime default_project PythonNumbers 20 40 = Inr r
         \<and> get_traffic_regime default_project PythonNumbers 30 40 = Inr r' \<and> r \<le> r')
   \<and> (\<exists>r r'. get_traffic_regime default_project PythonNumbers 20 40 = Inr r
         \<and> get_traffic_regime default_project PythonNumbers 20 20 = Inr r' \<and> r \<le> r')
   \<and> (\<exists>r r'. get_traffic_regime default_project NumpyFloat64 20 40 = Inr r
         \<and> get_traffic_regime default_project NumpyFloat64 30 40 = Inr r' \<and> r \<le> r')
   \<and> (\<exists>r r'. get_traffic_regime default_project NumpyFloat64 20 40 = Inr r
         \<and> get_traffic_regime default_project NumpyFloat64 20 20 = Inr r' \<and> r \<le> r')"
proof -
  have a: "(0::real) < 40" and b: "(0::real) \<le> 20" by simp_all
  have v: "get_traffic_regime default_project PythonNumbers 20 40 = Inr 1"
    "get_traffic_regime default_project PythonNumbers 30 40 = Inr 2"
    "get_traffic_regime default_project PythonNumbers 20 20 = Inr 3"
    by (simp_all add: get_traffic_regime_def truediv_def quotient_less_def default_project_def)
  from C8_regime_monotonic [OF a b, of 30 default_project PythonNumbers 20]
       C8_regime_monotonic [OF a b, of 30 default_project NumpyFloat64 20] v
  show ?thesis
    by simp
qed

subsection \<open>Emissions annotation\<close>

lemma all_slots: "s \<in> set slots"
proof (cases s)
  case (Pair d t)
  then show ?thesis by (cases d; cases t) (simp_all add: slots_def)
qed

lemma annotate_slots_returns:
  assumes "kind = NumpyFloat64 \<or> list_all (\<lambda>s. slot_duration_in_traffic row s \<noteq> 0) ss"
  shows "annotate_slots p kind row ss cur =
     (cur\<lparr>slot_emissions := (\<lambda>s. if s \<in> set ss
              then miles row * CO2_per_mile p * get_traffic_emissions_factor p
                     (projr (get_traffic_regime p kind (miles row) (slot_duration_in_traffic row s)))
              else slot_emissions cur s)\<rparr>, None)"
  using assms
proof (induction ss arbitrary: cur)
  case Nil
  then show ?case by simp
next
  case (Cons a ss)
  then have "kind = NumpyFloat64 \<or> slot_duration_in_traffic row a \<noteq> 0" by auto
  from get_traffic_regime_returns [OF this] obtain regime where
    r: "get_traffic_regime p kind (miles row) (slot_duration_in_traffic row a) = Inr regime"
    by blast
  from Cons.prems have rest: "kind = NumpyFloat64 \<or> list_all (\<lambda>s. slot_duration_in_traffic row s \<noteq> 0) ss"
    by auto
  show ?case
    by (simp add: r Cons.IH [OF rest] fun_eq_iff)
qed

lemma annotate_slots_raises:
  assumes "s \<in> set ss" and "slot_duration_in_traffic row s = 0"
  shows "snd (annotate_slots p PythonNumbers row ss cur) = Some ZeroDivisionError
     \<and> slot_emissions (fst (annotate_slots p PythonNumbers row ss cur)) s = slot_emissions cur s
     \<and> base_emissions (fst (annotate_slots p PythonNumbers row ss cur)) = base_emissions cur"
  using assms
proof (induction ss arbitrary: cur)
  case Nil
  then show ?case by simp
next
  case (Cons a ss)
  show ?case
  proof (cases "slot_duration_in_traffic row a = 0")
    case True
    then show ?thesis by (simp add: get_traffic_regime_python_zero)
  next
    case False
    with Cons.prems have mem: "s \<in> set ss" and ne: "a \<noteq> s" by auto
    from Cons.IH [OF mem Cons.prems(2)] False ne show ?thesis
      by (simp add: get_traffic_regime_nonzero)
  qed
qed

lemma annotate_row_returns:
  assumes "kind = NumpyFloat64 \<or> (\<forall>s. slot_duration_in_traffic row s \<noteq> 0)"
  shows "annotate_row p kind row =
     (row\<lparr>base_emissions := miles row * CO2_per_mile p,
           slot_emissions := (\<lambda>s. miles row * CO2_per_mile p * get_traffic_emissions_factor p
                     (projr (get_traffic_regime p kind (miles row) (slot_duration_in_traffic row s))))\<rparr>,
      None)"
proof -
  from assms have "kind = NumpyFloat64 \<or> list_all (\<lambda>s. slot_duration_in_traffic row s \<noteq> 0) slots"
    by (auto simp add: list_all_iff)
  then show ?thesis
    unfolding annotate_row_def by (simp add: annotate_slots_returns all_slots)
qed

lemma annotate_row_raises:
  assumes "slot_duration_in_traffic row s = 0"
  shows "snd (annotate_row p PythonNumbers row) = Some ZeroDivisionError
     \<and> slot_emissions (fst (annotate_row p PythonNumbers row)) s = slot_emissions row s
     \<and> base_emissions (fst (annotate_row p PythonNumbers row)) = miles row * CO2_per_mile p"
  unfolding annotate_row_def
  using annotate_slots_raises [OF all_slots assms, of p "row\<lparr>base_emissions := miles row * CO2_per_mile p\<rparr>"]
  by simp

lemma get_commute_emissions_length:
  "length (fst (get_commute_emissions p kind rows)) = length rows"
  by (induction rows) (auto simp add: split_beta split: option.splits)

lemma get_commute_emissions_reached:
  assumes "kind = NumpyFloat64 \<or> list_all (\<lambda>r. \<forall>s. slot_duration_in_traffic r s \<noteq> 0) before"
  shows "fst (get_commute_emissions p kind (before @ row # after)) ! length before
           = fst (annotate_row p kind row)
     \<and> (snd (annotate_row p kind row) \<noteq> None \<longrightarrow>
          snd (get_commute_emissions p kind (before @ row # after)) = snd (annotate_row p kind row)
        \<and> drop (Suc (length before)) (fst (get_commute_emissions p kind (before @ row # after))) = after)"
  using assms
proof (induction before)
  case Nil
  show ?case by (cases "annotate_row p kind row") (auto simp add: split_beta split: option.splits)
next
  case (Cons b before)
  then have ok: "kind = NumpyFloat64 \<or> (\<forall>s. slot_duration_in_traffic b s \<noteq> 0)"
    and rest: "kind = NumpyFloat64 \<or> list_all (\<lambda>r. \<forall>s. slot_duration_in_traffic r s \<noteq> 0) before"
    by auto
  from annotate_row_returns [OF ok, of p] Cons.IH [OF rest] show ?case
    by (simp add: split_beta)
qed

lemma get_commute_emissions_numpy:
  "snd (get_commute_emissions p NumpyFloat64 rows) = None"
proof (induction rows)
  case Nil
  then show ?case by simp
next
  case (Cons row rows)
  have "annotate_row p NumpyFloat64 row =
     (row\<lparr>base_emissions := miles row * CO2_per_mile p,
           slot_emissions := (\<lambda>s. miles row * CO2_per_mile p * get_traffic_emissions_factor p
                     (projr (get_traffic_regime p NumpyFloat64 (miles row) (slot_duration_in_traffic row s))))\<rparr>,
      None)"
    by (rule annotate_row_returns) simp
  with Cons show ?case by (simp add: split_beta)
qed

text \<open>
  C6, amended. The matrix is annotated record by record. A record is reached without an
  exception when the operands are \<^verbatim>\<open>numpy.float64\<close> values, or when no slot of it and
  of the records before it has a duration of 0: then its base emissions are its miles
  times \<open>CO2_per_mile\<close>, and the emissions of each of its ten slots are its miles times
  \<open>CO2_per_mile\<close> times the emissions factor of the regime that the classifier returns
  for the miles and that slot's duration. With Python floats, the first record with a
  slot of duration 0 makes the annotation raise ZeroDivisionError: that slot keeps its
  value and the records after it are as they were. With \<^verbatim>\<open>numpy.float64\<close> values the
  annotation never raises, and a slot of duration 0 is classified as regime 3 (regime 1
  when the miles are negative). With the second threshold at 33.554, 20 miles in 40
  minutes are 30 mph and regime 1, and with coefficient 0.7 and 0.404 kg per mile the
  slot emissions are 5.656.
\<close>

theorem C6_emissions_annotation:
  "length (fst (get_commute_emissions p kind rows)) = length rows
   \<and> (kind = NumpyFloat64 \<or> list_all (\<lambda>r. \<forall>s. slot_duration_in_traffic r s \<noteq> 0) (before @ [row])
      \<longrightarrow> base_emissions (fst (get_commute_emissions p kind (before @ row # after)) ! length before)
            = miles row * CO2_per_mile p
        \<and> (\<forall>s. \<exists>regime.
              get_traffic_regime p kind (miles row) (slot_duration_in_traffic row s) = Inr regime
            \<and> slot_emissions (fst (get_commute_emissions p kind (before @ row # after)) ! length before) s
                = miles row * CO2_per_mile p * get_traffic_emissions_factor p regime))
   \<and> (list_all (\<lambda>r. \<forall>s. slot_duration_in_traffic r s \<noteq> 0) before
        \<and> slot_duration_in_traffic row s = 0
      \<longrightarrow> snd (get_commute_emissions p PythonNumbers (before @ row # after)) = Some ZeroDivisionError
        \<and> slot_emissions (fst (get_commute_emissions p PythonNumbers (before @ row # after)) ! length before) s
            = slot_emissions row s
        \<and> drop (Suc (length before)) (fst (get_commute_emissions p PythonNumbers (before @ row # after)))
            = after)
   \<and> snd (get_commute_emissions p NumpyFloat64 rows) = None
   \<and> get_traffic_regime p NumpyFloat64 (miles row) 0 = Inr (if miles row < 0 then 1 else 3)
   \<and> (traffic_regime_2 p = 33.554 \<and> traffic_regime_1_coeff p = 0.7 \<and> CO2_per_mile p = 0.404 \<longrightarrow>
          (20::real) / (40 / 60) = 30
        \<and> get_traffic_regime p kind 20 40 = Inr 1
        \<and> 20 * CO2_per_mile p * get_traffic_emissions_factor p 1 = 5.656)"
proof (intro conjI impI)
  show "length (fst (get_commute_emissions p kind rows)) = length rows"
    by (rule get_commute_emissions_length)
next
  assume ok: "kind = NumpyFloat64 \<or> list_all (\<lambda>r. \<forall>s. slot_duration_in_traffic r s \<noteq> 0) (before @ [row])"
  then have b: "kind = NumpyFloat64 \<or> list_all (\<lambda>r. \<forall>s. slot_duration_in_traffic r s \<noteq> 0) before"
    and r: "kind = NumpyFloat64 \<or> (\<forall>s. slot_duration_in_traffic row s \<noteq> 0)"
    by (auto simp del: split_paired_All)
  from get_commute_emissions_reached [OF b, of p row after]
  have at: "fst (get_commute_emissions p kind (before @ row # after)) ! length before
           = fst (annotate_row p kind row)"
    by (rule conjunct1)
  show "base_emissions (fst (get_commute_emissions p kind (before @ row # after)) ! length before)
            = miles row * CO2_per_mile p"
    unfolding at by (simp add: annotate_row_returns [OF r])
  show "\<forall>s. \<exists>regime.
              get_traffic_regime p kind (miles row) (slot_duration_in_traffic row s) = Inr regime
            \<and> slot_emissions (fst (get_commute_emissions p kind (before @ row # after)) ! length before) s
                = miles row * CO2_per_mile p * get_traffic_emissions_factor p regime"
  proof
    fix s
    from r have "kind = NumpyFloat64 \<or> slot_duration_in_traffic row s \<noteq> 0" by blast
    from get_traffic_regime_returns [OF this] obtain regime where
      "get_traffic_regime p kind (miles row) (slot_duration_in_traffic row s) = Inr regime"
      by blast
    then show "\<exists>regime.
              get_traffic_regime p kind (miles row) (slot_duration_in_traffic row s) = Inr regime
            \<and> slot_emissions (fst (get_commute_emissions p kind (before @ row # after)) ! length before) s
                = miles row * CO2_per_mile p * get_traffic_emissions_factor p regime"
      unfolding at by (simp add: annotate_row_returns [OF r])
  qed
next
  assume z: "list_all (\<lambda>r. \<forall>s. slot_duration_in_traffic r s \<noteq> 0) before
        \<and> slot_duration_in_traffic row s = 0"
  then have b: "PythonNumbers = NumpyFloat64 \<or> list_all (\<lambda>r. \<forall>s. slot_duration_in_traffic r s \<noteq> 0) before"
    and zero: "slot_duration_in_traffic row s = 0"
    by simp_all
  note rr = annotate_row_raises [OF zero, of p]
  note gr = get_commute_emissions_reached [OF b, of p row after]
  from rr have ne: "snd (annotate_row p PythonNumbers row) \<noteq> None" by simp
  from gr ne rr show "snd (get_commute_emissions p PythonNumbers (before @ row # after)) = Some ZeroDivisionError"
    by simp
  from gr rr show "slot_emissions (fst (get_commute_emissions p PythonNumbers (before @ row # after)) ! length before) s
            = slot_emissions row s"
    by simp
  from gr ne show "drop (Suc (length before)) (fst (get_commute_emissions p PythonNumbers (before @ row # after)))
            = after"
    by simp
next
  show "snd (get_commute_emissions p NumpyFloat64 rows) = None"
    by (rule get_commute_emissions_numpy)
next
  show "get_traffic_regime p NumpyFloat64 (miles row) 0 = Inr (if miles row < 0 then 1 else 3)"
    by (rule get_traffic_regime_numpy_zero)
next
  show "(20::real) / (40 / 60) = 30" by simp
next
  assume "traffic_regime_2 p = 33.554 \<and> traffic_regime_1_coeff p = 0.7 \<and> CO2_per_mile p = 0.404"
  then show "get_traffic_regime p kind 20 40 = Inr 1"
    by (simp add: get_traffic_regime_def truediv_def quotient_less_def)
next
  assume "traffic_regime_2 p = 33.554 \<and> traffic_regime_1_coeff p = 0.7 \<and> CO2_per_mile p = 0.404"
  then have c: "traffic_regime_1_coeff p = 7 / 10" "CO2_per_mile p = 101 / 250"
    by simp_all
  show "20 * CO2_per_mile p * get_traffic_emissions_factor p 1 = 5.656"
    unfolding get_traffic_emissions_factor_def c by simp
qed

theorem C6_emissions_annotation_witness:
  "miles sample_row = 20 \<and> slot_duration_in_traffic sample_row (Mon, Morning) = 40
   \<and> base_emissions (fst (get_commute_emissions default_project PythonNumbers [sample_row, zero_slot_row]) ! 0)
        = 8.08
   \<and> slot_emissions (fst (get_commute_emissions default_project PythonNumbers [sample_row, zero_slot_row]) ! 0)
        (Mon, Morning) = 5.656
   \<and> slot_duration_in_traffic zero_slot_row (Wed, Evening) = 0
   \<and> snd (get_commute_emissions default_project PythonNumbers [sample_row, zero_slot_row])
        = Some ZeroDivisionError
   \<and> slot_emissions (fst (get_commute_emissions default_project PythonNumbers [sample_row, zero_slot_row]) ! 1)
        (Wed, Evening) = - 1
   \<and> snd (get_commute_emissions default_project NumpyFloat64 [sample_row, zero_slot_row]) = None
   \<and> slot_emissions (fst (get_commute_emissions default_project NumpyFloat64 [sample_row, zero_slot_row]) ! 1)
        (Wed, Evening) = 10.1"
proof -
  have h1: "list_all (\<lambda>r. \<forall>s. slot_duration_in_traffic r s \<noteq> 0) ([] @ [sample_row])"
    by (simp add: sample_row_def)
  have h2: "list_all (\<lambda>r. \<forall>s. slot_duration_in_traffic r s \<noteq> 0) [sample_row]"
    by (simp add: sample_row_def)
  have m: "miles sample_row = 20" "slot_duration_in_traffic sample_row (Mon, Morning) = 40"
    "miles zero_slot_row = 20" "slot_duration_in_traffic zero_slot_row (Wed, Evening) = 0"
    "slot_emissions zero_slot_row (Wed, Evening) = - 1"
    by (simp_all add: sample_row_def zero_slot_row_def)
  have c: "traffic_regime_2 default_project = 33.554 \<and> traffic_regime_1_coeff default_project = 0.7
             \<and> CO2_per_mile default_project = 0.404"
    by (simp add: default_project_def)
  have co: "CO2_per_mile default_project = 101 / 250"
    by (simp add: default_project_def)
  note t1 = C6_emissions_annotation [where kind = PythonNumbers and before = "[]" and row = sample_row
      and after = "[zero_slot_row]" and p = default_project]
  note t2 = C6_emissions_annotation [where kind = PythonNumbers and before = "[sample_row]"
      and row = zero_slot_row and after = "[]" and p = default_project and s = "(Wed, Evening)"
      and rows = "[sample_row, zero_slot_row]"]
  note t3 = C6_emissions_annotation [where kind = NumpyFloat64 and before = "[sample_row]"
      and row = zero_slot_row and after = "[]" and p = default_project
      and rows = "[sample_row, zero_slot_row]"]
  from t1 c have reg: "get_traffic_regime default_project PythonNumbers 20 40 = Inr 1"
    and em: "20 * CO2_per_mile default_project * get_traffic_emissions_factor default_project 1 = 5.656"
    by blast+
  from t1 h1 have
    be: "base_emissions (fst (get_commute_emissions default_project PythonNumbers ([] @ sample_row # [zero_slot_row])) ! length ([]::commute_row list))
            = miles sample_row * CO2_per_mile default_project"
    and sl: "\<forall>s. \<exists>regime.
              get_traffic_regime default_project PythonNumbers (miles sample_row) (slot_duration_in_traffic sample_row s) = Inr regime
            \<and> slot_emissions (fst (get_commute_emissions default_project PythonNumbers ([] @ sample_row # [zero_slot_row])) ! length ([]::commute_row list)) s
                = miles sample_row * CO2_per_mile default_project * get_traffic_emissions_factor default_project regime"
    by blast+
  from be have w1: "base_emissions (fst (get_commute_emissions default_project PythonNumbers [sample_row, zero_slot_row]) ! 0)
        = 8.08"
    by (simp add: m co)
  from sl obtain regime where
    "get_traffic_regime default_project PythonNumbers (miles sample_row) (slot_duration_in_traffic sample_row (Mon, Morning)) = Inr regime"
    "slot_emissions (fst (get_commute_emissions default_project PythonNumbers ([] @ sample_row # [zero_slot_row])) ! length ([]::commute_row list)) (Mon, Morning)
                = miles sample_row * CO2_per_mile default_project * get_traffic_emissions_factor default_project regime"
    by blast
  with reg em have w2: "slot_emissions (fst (get_commute_emissions default_project PythonNumbers [sample_row, zero_slot_row]) ! 0)
        (Mon, Morning) = 5.656"
    by (simp add: m)
  from t2 h2 m(4) have
    w3: "snd (get_commute_emissions default_project PythonNumbers ([sample_row] @ zero_slot_row # [])) = Some ZeroDivisionError"
    and w4: "slot_emissions (fst (get_commute_emissions default_project PythonNumbers ([sample_row] @ zero_slot_row # [])) ! length [sample_row]) (Wed, Evening)
            = slot_emissions zero_slot_row (Wed, Evening)"
    by blast+
  from t3 have
    w5: "snd (get_commute_emissions default_project NumpyFloat64 [sample_row, zero_slot_row]) = None"
    and r3: "get_traffic_regime default_project NumpyFloat64 (miles zero_slot_row) 0
        = Inr (if miles zero_slot_row < 0 then 1 else 3)"
    and sl3: "\<forall>s. \<exists>regime.
              get_traffic_regime default_project NumpyFloat64 (miles zero_slot_row) (slot_duration_in_traffic zero_slot_row s) = Inr regime
            \<and> slot_emissions (fst (get_commute_emissions default_project NumpyFloat64 ([sample_row] @ zero_slot_row # [])) ! length [sample_row]) s
                = miles zero_slot_row * CO2_per_mile default_project * get_traffic_emissions_factor default_project regime"
    by blast+
  from sl3 obtain regime3 where
    "get_traffic_regime default_project NumpyFloat64 (miles zero_slot_row) (slot_duration_in_traffic zero_slot_row (Wed, Evening)) = Inr regime3"
    "slot_emissions (fst (get_commute_emissions default_project NumpyFloat64 ([sample_row] @ zero_slot_row # [])) ! length [sample_row]) (Wed, Evening)
                = miles zero_slot_row * CO2_per_mile default_project * get_traffic_emissions_factor default_project regime3"
    by blast
  with r3 have w6: "slot_emissions (fst (get_commute_emissions default_project NumpyFloat64 [sample_row, zero_slot_row]) ! 1)
        (Wed, Evening) = 10.1"
    by (simp add: m co get_traffic_emissions_factor_def default_project_def)
  from w3 have w3': "snd (get_commute_emissions default_project PythonNumbers [sample_row, zero_slot_row])
        = Some ZeroDivisionError"
    by simp
  from w4 have w4': "slot_emissions (fst (get_commute_emissions default_project PythonNumbers [sample_row, zero_slot_row]) ! 1)
        (Wed, Evening) = - 1"
    by (simp add: m)
  show ?thesis
    by (intro conjI m(1) m(2) w1 w2 m(4) w3' w4' w5 w6)
qed

text \<open>
  C6, as the claim states it, fails: in a frame of Python floats, a record with 20 miles
  and one slot of 0 minutes makes the annotation raise ZeroDivisionError, and the
  emissions of that slot are not set (they keep the value -1).
\<close>

theorem C6_zero_slot_counterexample:
  "miles zero_slot_row = 20
   \<and> snd (get_commute_emissions default_project PythonNumbers [zero_slot_row]) = Some ZeroDivisionError
   \<and> slot_emissions (fst (get_commute_emissions default_project PythonNumbers [zero_slot_row]) ! 0)
        (Wed, Evening) = - 1"
proof -
  have z: "slot_duration_in_traffic zero_slot_row (Wed, Evening) = 0"
    by (simp add: zero_slot_row_def)
  note r = annotate_row_raises [OF z, of default_project]
  have g: "get_commute_emissions default_project PythonNumbers [zero_slot_row]
      = (fst (annotate_row default_project PythonNumbers zero_slot_row) # [], Some ZeroDivisionError)"
    using r by (cases "annotate_row default_project PythonNumbers zero_slot_row") simp
  from r show ?thesis
    unfolding g by (simp add: zero_slot_row_def sample_row_def)
qed


subsection \<open>Analysis phase\<close>

lemma update_analysis_phase_range:
  assumes "fst (update_analysis_phase self) = Some n"
  shows "0 \<le> n \<and> n \<le> 6"
  using assms
  by (auto simp add: update_analysis_phase_def split: option.splits if_splits)

lemma update_analysis_phase_offices_missing:
  assumes "current_project self = Some ps"
    and "''employee_addresses.csv'' \<in> set (list_data_files ps)"
    and "''office_addresses.csv'' \<notin> set (list_data_files ps)"
  shows "update_analysis_phase self = (None, self)"
  using assms by (simp add: update_analysis_phase_def)

lemma update_analysis_phase_no_project:
  assumes "current_project self = None"
  shows "update_analysis_phase self = (Some 0, self\<lparr>analysis_phase := 0\<rparr>)"
  using assms by (simp add: update_analysis_phase_def)

lemma update_analysis_phase_no_employees:
  assumes "current_project self = Some ps"
    and "''employee_addresses.csv'' \<notin> set (list_data_files ps)"
  shows "update_analysis_phase self = (Some 1, self\<lparr>analysis_phase := 1\<rparr>)"
  using assms by (simp add: update_analysis_phase_def)

lemma update_analysis_phase_with_addresses:
  assumes "current_project self = Some ps"
    and "''employee_addresses.csv'' \<in> set (list_data_files ps)"
    and "''office_addresses.csv'' \<in> set (list_data_files ps)"
  shows "fst (update_analysis_phase self) =
     Some (if \<not> (''employee_gps.csv'' \<in> set (list_data_files ps)
                  \<and> ''office_gps.csv'' \<in> set (list_data_files ps)) then 2
           else if \<not> (''gps_fuzz.csv'' \<in> set (list_data_files ps)
                       \<or> use_gps_fuzzing (config ps) = PyBool False
                       \<or> use_gps_fuzzing (config ps) = PyStr ''False'') then 3
           else if ''commute_data.csv'' \<notin> set (list_data_files ps) then 4
           else if \<not> (''plots'' \<in> set (project_listing ps)
                       \<and> ''graphs.json'' \<in> set (plots_listing ps)) then 5
           else 6)"
  using assms by (simp add: update_analysis_phase_def)

text \<open>
  C2 (the phase is an integer from 0 to 6 for every project state). The project
  directory holds \<^verbatim>\<open>employee_addresses.csv\<close> and no \<^verbatim>\<open>office_addresses.csv\<close>: the
  function returns \<^verbatim>\<open>None\<close>, not an integer, and the attribute keeps the phase of an
  earlier computation (here 6).
\<close>

theorem C2_phase_none_without_offices:
  "update_analysis_phase \<lparr>current_project = Some employees_only, analysis_phase = 6\<rparr>
     = (None, \<lparr>current_project = Some employees_only, analysis_phase = 6\<rparr>)"
  by (simp add: update_analysis_phase_def employees_only_def list_data_files_def endswith_def)

subsection \<open>Rate limiting\<close>

lemma sleepif_no_sleep:
  assumes "sleep_time self \<le> 1"
    and "1 \<le> now1 - last_call self" and "now1 - last_call self < 86400"
  shows "sleepif self now1 now2 = Inr 0"
proof -
  from assms(2) have "1 \<le> \<lfloor>now1 - last_call self\<rfloor>" by linarith
  moreover from assms(3) have "\<lfloor>now1 - last_call self\<rfloor> < 86400" by linarith
  ultimately have "1 \<le> timedelta_seconds (now1 - last_call self)"
    by (simp add: timedelta_seconds_def)
  then have "1 \<le> real_of_int (timedelta_seconds (now1 - last_call self))" by linarith
  with assms(1) show ?thesis by (simp add: sleepif_def)
qed

text \<open>
  C9 (consecutive provider calls are at least 60/rate_limit seconds apart). The analyzer
  is created at instant 0, so the spacing is 0.2 s; five seconds later a batch of two
  calls of 10 ms each runs. The throttle sleeps before neither call: the first starts at
  5 and ends at 5.01, the second starts at 5.01, no time after the end of the first.
\<close>

theorem C9_calls_not_spaced:
  "sleep_time (init_throttle 0) = 0.2
   \<and> sleepif (init_throttle 0) 5 5 = Inr 0
   \<and> sleepif (init_throttle 0) 5.01 5.01 = Inr 0
   \<and> throttled_calls (init_throttle 0) 5 [0.01, 0.01] = Inr [(5, 5.01), (5.01, 5.02)]"
  by (simp add: init_throttle_def Let_def sleepif_def timedelta_seconds_def)

subsection \<open>Parsing durations\<close>

lemma accumulate_time_sums:
  "hours (accumulate_time matches tv)
     = hours tv + (\<Sum>(amount, unit)\<leftarrow>matches.
                     if startswith unit ''hour'' \<or> unit = ''hrs'' then int_of_digits amount else 0)"
  "minutes (accumulate_time matches tv)
     = minutes tv + (\<Sum>(amount, unit)\<leftarrow>matches.
                     if startswith unit ''hour'' \<or> unit = ''hrs'' then 0
                     else if startswith unit ''min'' then int_of_digits amount else 0)"
  by (induction matches tv rule: accumulate_time.induct) simp_all

lemma convert_stringtime_to_minutes_sums:
  "convert_stringtime_to_minutes s
     = (\<Sum>(amount, unit)\<leftarrow>findall_time s.
          if startswith unit ''hour'' \<or> unit = ''hrs'' then int_of_digits amount else 0) * 60
       + (\<Sum>(amount, unit)\<leftarrow>findall_time s.
          if startswith unit ''hour'' \<or> unit = ''hrs'' then 0
          else if startswith unit ''min'' then int_of_digits amount else 0)"
  by (simp add: convert_stringtime_to_minutes_def Let_def accumulate_time_sums)

lemma convert_stringtime_to_minutes_no_match:
  assumes "findall_time s = []"
  shows "convert_stringtime_to_minutes s = 0"
  using assms by (simp add: convert_stringtime_to_minutes_def)

text \<open>
  C7 (hour tokens times 60 plus minute tokens). The pattern is matched ignoring case, so
  the text \<^verbatim>\<open>2 Hours 5 Mins\<close> has an hour token and a minute token; the loop compares
  the unit case-sensitively, adds neither, and the result is 0 where the lower-case text
  gives 125. Seconds are dropped: \<^verbatim>\<open>1 hour 5 seconds\<close> gives 60.
\<close>

theorem C7_capitalised_units_dropped:
  "findall_time ''2 Hours 5 Mins'' = [(''2'', ''Hour''), (''5'', ''Min'')]
   \<and> convert_stringtime_to_minutes ''2 Hours 5 Mins'' = 0
   \<and> findall_time ''2 hours 5 mins'' = [(''2'', ''hour''), (''5'', ''min'')]
   \<and> convert_stringtime_to_minutes ''2 hours 5 mins'' = 125
   \<and> convert_stringtime_to_minutes ''1 hour 5 seconds'' = 60"
  by code_simp

subsection \<open>The commute cost differential graph\<close>

lemma series_sub_index:
  assumes "length xs = length ys"
  shows "series_sub xs ys = map (\<lambda>j. xs ! j - ys ! j) [0..<length xs]"
  using assms by (intro nth_equalityI) (simp_all add: series_sub_def)

lemma select_mask_index:
  assumes "length xs = length ys"
  shows "select_mask (series_sub xs ys) (map (\<lambda>(a, b). a \<noteq> 0 \<and> b \<noteq> 0) (zip xs ys))
           = map (\<lambda>j. xs ! j - ys ! j) (filter (\<lambda>j. xs ! j \<noteq> 0 \<and> ys ! j \<noteq> 0) [0..<length xs])"
  using assms
proof (induction xs ys rule: list_induct2)
  case Nil
  then show ?case by (simp add: select_mask_def series_sub_def)
next
  case (Cons x xs y ys)
  have up: "[0..<length (x # xs)] = 0 # map Suc [0..<length xs]"
    by (simp add: upt_conv_Cons map_Suc_upt del: upt_Suc)
  from Cons.IH show ?case
    unfolding up by (simp add: select_mask_def series_sub_def filter_map o_def)
qed

lemma fill_costs_result:
  assumes "fill_costs cd addr ws costs = Inr cs"
  shows "list_all2 (\<lambda>r r'. latitude r' = latitude r \<and> longitude r' = longitude r
            \<and> (if list_ex (\<lambda>w. latitude w = latitude r \<and> longitude w = longitude r) ws
                then lookup_commute_cost cd (latitude r) (longitude r) addr = Inr (cost r')
                else cost r' = cost r)) costs cs"
  using assms
proof (induction ws arbitrary: costs)
  case Nil
  then show ?case by (simp add: list_all2_same)
next
  case (Cons row ws)
  from Cons.prems obtain c where
    c: "lookup_commute_cost cd (latitude row) (longitude row) addr = Inr c"
    and rest: "fill_costs cd addr ws
            (map (\<lambda>r. if latitude r = latitude row \<and> longitude r = longitude row
                       then r\<lparr>cost := c\<rparr> else r) costs) = Inr cs"
    by (auto split: sum.splits)
  from Cons.IH [OF rest] have ih: "list_all2 (\<lambda>r r'. latitude r' = latitude r \<and> longitude r' = longitude r
            \<and> (if list_ex (\<lambda>w. latitude w = latitude r \<and> longitude w = longitude r) ws
                then lookup_commute_cost cd (latitude r) (longitude r) addr = Inr (cost r')
                else cost r' = cost r))
          (map (\<lambda>r. if latitude r = latitude row \<and> longitude r = longitude row
                       then r\<lparr>cost := c\<rparr> else r) costs) cs" .
  from ih have len: "length costs = length cs"
    by (simp add: list_all2_conv_all_nth)
  show ?case
  proof (rule list_all2_all_nthI [OF len])
    fix k assume k: "k < length costs"
    then have kb: "k < length (map (\<lambda>r. if latitude r = latitude row \<and> longitude r = longitude row
                       then r\<lparr>cost := c\<rparr> else r) costs)"
      by simp
    from list_all2_nthD [OF ih kb] k have
      "latitude (cs ! k) = latitude (costs ! k) \<and> longitude (cs ! k) = longitude (costs ! k)
        \<and> (if list_ex (\<lambda>w. latitude w = latitude (costs ! k) \<and> longitude w = longitude (costs ! k)) ws
            then lookup_commute_cost cd (latitude (costs ! k)) (longitude (costs ! k)) addr = Inr (cost (cs ! k))
            else cost (cs ! k) = cost (if latitude (costs ! k) = latitude row \<and> longitude (costs ! k) = longitude row
                       then (costs ! k)\<lparr>cost := c\<rparr> else costs ! k))"
      by (auto split: if_splits)
    with c show "latitude (cs ! k) = latitude (costs ! k) \<and> longitude (cs ! k) = longitude (costs ! k)
        \<and> (if list_ex (\<lambda>w. latitude w = latitude (costs ! k) \<and> longitude w = longitude (costs ! k)) (row # ws)
            then lookup_commute_cost cd (latitude (costs ! k)) (longitude (costs ! k)) addr = Inr (cost (cs ! k))
            else cost (cs ! k) = cost (costs ! k))"
      by (auto split: if_splits)
  qed
qed

lemma in_scope_iff:
  assumes "e \<in> set emp"
  shows "list_ex (\<lambda>w. latitude w = latitude e \<and> longitude w = longitude e)
           (filter_drive_distance emp targets radius cd inside)
         = check_d (latitude e) (longitude e) targets radius cd inside"
  using assms by (auto simp add: filter_drive_distance_def list_ex_iff)

lemma office_costs_result:
  assumes "office_costs p emp office_r cd = Inr frame"
  shows "length frame = length emp \<and> costs_in_scope_or_zero p cd office_r emp (map cost frame)"
proof -
  let ?ws = "filter_drive_distance emp [office_r] (commute_range_cut_off p) cd True"
  from assms have "fill_costs cd (address office_r) ?ws (get_base_cost_df emp (address office_r)) = Inr frame"
    by (simp add: office_costs_def)
  from fill_costs_result [OF this]
  have r: "list_all2 (\<lambda>r r'. latitude r' = latitude r \<and> longitude r' = longitude r
            \<and> (if list_ex (\<lambda>w. latitude w = latitude r \<and> longitude w = longitude r) ?ws
                then lookup_commute_cost cd (latitude r) (longitude r) (address office_r) = Inr (cost r')
                else cost r' = cost r)) (get_base_cost_df emp (address office_r)) frame" .
  then have len: "length frame = length emp"
    by (simp add: list_all2_conv_all_nth get_base_cost_df_def)
  have "costs_in_scope_or_zero p cd office_r emp (map cost frame)"
    unfolding costs_in_scope_or_zero_def list_all2_conv_all_nth
  proof (intro conjI allI impI)
    show "length emp = length (map cost frame)" using len by simp
  next
    fix j assume j: "j < length emp"
    then have mem: "emp ! j \<in> set emp" by simp
    from j have jb: "j < length (get_base_cost_df emp (address office_r))"
      by (simp add: get_base_cost_df_def)
    from j have nb: "get_base_cost_df emp (address office_r) ! j
        = \<lparr>latitude = latitude (emp ! j), longitude = longitude (emp ! j),
           office = address office_r, cost = 0\<rparr>"
      by (simp add: get_base_cost_df_def)
    from list_all2_nthD [OF r jb] have
      "if list_ex (\<lambda>w. latitude w = latitude (emp ! j) \<and> longitude w = longitude (emp ! j)) ?ws
       then lookup_commute_cost cd (latitude (emp ! j)) (longitude (emp ! j)) (address office_r) = Inr (cost (frame ! j))
       else cost (frame ! j) = 0"
      unfolding nb by (simp cong: if_cong)
    then show "if check_d (latitude (emp ! j)) (longitude (emp ! j)) [office_r] (commute_range_cut_off p) cd True
       then lookup_commute_cost cd (latitude (emp ! j)) (longitude (emp ! j)) (address office_r) = Inr (map cost frame ! j)
       else map cost frame ! j = 0"
      using j len by (simp add: in_scope_iff [OF mem] cong: if_cong)
  qed
  with len show ?thesis by simp
qed

lemma other_office_costs_result:
  assumes "other_office_costs p emp others cd = Inr cost_values"
  shows "length cost_values = length others
     \<and> (\<forall>i<length others. office_costs p emp (others ! i) cd = Inr (cost_values ! i))"
  using assms
proof (induction others arbitrary: cost_values)
  case Nil
  then show ?case by simp
next
  case (Cons o_r others)
  from Cons.prems obtain f fs where
    f: "office_costs p emp o_r cd = Inr f" and fs: "other_office_costs p emp others cd = Inr fs"
    and cv: "cost_values = f # fs"
    by (auto split: sum.splits)
  from Cons.IH [OF fs] f cv show ?case
    by (auto simp add: nth_Cons split: nat.splits)
qed

lemma headline_differentials_result:
  assumes "headline_differentials cost_values base_costs = Inr ds"
  shows "length ds = length cost_values
     \<and> (\<forall>i<length cost_values.
           ds ! i = series_sub (map cost (cost_values ! i)) (map cost base_costs))"
  using assms
proof (induction cost_values arbitrary: ds)
  case Nil
  then show ?case by simp
next
  case (Cons f fs)
  from Cons.prems obtain rest where
    rest: "headline_differentials fs base_costs = Inr rest"
    and d: "ds = series_sub (map cost f) (map cost base_costs) # rest"
    by (auto simp add: cost_column_def split: sum.splits if_splits)
  from Cons.IH [OF rest] d show ?case
    by (auto simp add: nth_Cons split: nat.splits)
qed

lemma rotation_loop_result:
  assumes "rotation_loop ax i cost_values base_costs = Inr ds2"
  shows "length ds2 = length cost_values
     \<and> (\<forall>k<length cost_values.
           ds2 ! k = select_mask (series_sub (map cost (cost_values ! k)) (map cost base_costs))
                       (map (\<lambda>(a, b). a \<noteq> 0 \<and> b \<noteq> 0)
                          (zip (map cost (cost_values ! k)) (map cost base_costs))))"
  using assms
proof (induction cost_values arbitrary: i ds2)
  case Nil
  then show ?case by simp
next
  case (Cons f fs)
  from Cons.prems obtain rest where
    rest: "rotation_loop ax (Suc i) fs base_costs = Inr rest"
    and d: "ds2 = select_mask (series_sub (map cost f) (map cost base_costs))
                       (map (\<lambda>(a, b). a \<noteq> 0 \<and> b \<noteq> 0) (zip (map cost f) (map cost base_costs))) # rest"
    by (auto simp add: cost_column_def Let_def split: sum.splits if_splits)
  from Cons.IH [OF rest] d show ?case
    by (auto simp add: nth_Cons split: nat.splits)
qed

lemma differential_by_employee:
  assumes "length cost_frame = length base_costs"
  shows "series_sub (map cost cost_frame) (map cost base_costs)
           = map (\<lambda>j. cost (cost_frame ! j) - cost (base_costs ! j)) [0..<length base_costs]"
    and "select_mask (series_sub (map cost cost_frame) (map cost base_costs))
           (map (\<lambda>(a, b). a \<noteq> 0 \<and> b \<noteq> 0) (zip (map cost cost_frame) (map cost base_costs)))
           = map (\<lambda>j. cost (cost_frame ! j) - cost (base_costs ! j))
               (filter (\<lambda>j. cost (cost_frame ! j) \<noteq> 0 \<and> cost (base_costs ! j) \<noteq> 0)
                  [0..<length base_costs])"
proof -
  have len: "length (map cost cost_frame) = length (map cost base_costs)"
    using assms by simp
  show "series_sub (map cost cost_frame) (map cost base_costs)
           = map (\<lambda>j. cost (cost_frame ! j) - cost (base_costs ! j)) [0..<length base_costs]"
    using series_sub_index [OF len] assms by simp
  have f: "filter (\<lambda>j. map cost cost_frame ! j \<noteq> 0 \<and> map cost base_costs ! j \<noteq> 0) [0..<length base_costs]
      = filter (\<lambda>j. cost (cost_frame ! j) \<noteq> 0 \<and> cost (base_costs ! j) \<noteq> 0) [0..<length base_costs]"
    using assms by (intro filter_cong) simp_all
  have m: "map (\<lambda>j. map cost cost_frame ! j - map cost base_costs ! j) js
      = map (\<lambda>j. cost (cost_frame ! j) - cost (base_costs ! j)) js"
    if "set js \<subseteq> {0..<length base_costs}" for js
    using that assms by (intro map_cong) auto
  show "select_mask (series_sub (map cost cost_frame) (map cost base_costs))
           (map (\<lambda>(a, b). a \<noteq> 0 \<and> b \<noteq> 0) (zip (map cost cost_frame) (map cost base_costs)))
           = map (\<lambda>j. cost (cost_frame ! j) - cost (base_costs ! j))
               (filter (\<lambda>j. cost (cost_frame ! j) \<noteq> 0 \<and> cost (base_costs ! j) \<noteq> 0)
                  [0..<length base_costs])"
    using select_mask_index [OF len] assms m f by simp
qed

text \<open>
  When the graph is produced, the two lists of each alternative office are what the
  differential analysis is meant to report: alternative cost minus baseline cost for
  every employee, a cost being 0 outside the driving cut-off of the office, and the same
  differences for the employees whose two costs are both different from 0.
\<close>

lemma differential_values:
  assumes "commute_cost_differential_analysis haversine p emp (current_office # other_offices) commute_data
             = Inr res"
  shows "length res = length other_offices
     \<and> (\<forall>i<length other_offices. \<exists>base alt.
           costs_in_scope_or_zero p commute_data current_office emp base
         \<and> costs_in_scope_or_zero p commute_data (other_offices ! i) emp alt
         \<and> diffs (res ! i) = map (\<lambda>j. alt ! j - base ! j) [0..<length emp]
         \<and> diffs2 (res ! i)
             = map (\<lambda>j. alt ! j - base ! j) (filter (\<lambda>j. alt ! j \<noteq> 0 \<and> base ! j \<noteq> 0) [0..<length emp]))"
proof -
  from assms obtain base_costs cost_values ds ax ds2 where
    bc: "office_costs p emp current_office commute_data = Inr base_costs"
    and cv: "other_office_costs p emp other_offices commute_data = Inr cost_values"
    and hd: "headline_differentials cost_values base_costs = Inr ds"
    and rl: "rotation_loop ax 0 cost_values base_costs = Inr ds2"
    and res: "res = map (\<lambda>(d, d2). \<lparr>diffs = d, diffs2 = d2\<rparr>) (zip ds ds2)"
    by (auto simp add: commute_cost_differential_analysis_def split: sum.splits)
  from office_costs_result [OF bc] have
    bl: "length base_costs = length emp"
    and bs: "costs_in_scope_or_zero p commute_data current_office emp (map cost base_costs)"
    by simp_all
  from other_office_costs_result [OF cv] have
    cl: "length cost_values = length other_offices"
    and cn: "\<forall>i<length other_offices. office_costs p emp (other_offices ! i) commute_data = Inr (cost_values ! i)"
    by simp_all
  from headline_differentials_result [OF hd] have
    dl: "length ds = length cost_values"
    and dn: "\<forall>i<length cost_values. ds ! i = series_sub (map cost (cost_values ! i)) (map cost base_costs)"
    by simp_all
  from rotation_loop_result [OF rl] have
    el: "length ds2 = length cost_values"
    and en: "\<forall>k<length cost_values.
           ds2 ! k = select_mask (series_sub (map cost (cost_values ! k)) (map cost base_costs))
                       (map (\<lambda>(a, b). a \<noteq> 0 \<and> b \<noteq> 0)
                          (zip (map cost (cost_values ! k)) (map cost base_costs)))"
    by simp_all
  have rlen: "length res = length other_offices"
    unfolding res using dl el cl by simp
  have "\<exists>base alt.
           costs_in_scope_or_zero p commute_data current_office emp base
         \<and> costs_in_scope_or_zero p commute_data (other_offices ! i) emp alt
         \<and> diffs (res ! i) = map (\<lambda>j. alt ! j - base ! j) [0..<length emp]
         \<and> diffs2 (res ! i)
             = map (\<lambda>j. alt ! j - base ! j) (filter (\<lambda>j. alt ! j \<noteq> 0 \<and> base ! j \<noteq> 0) [0..<length emp])"
    if i: "i < length other_offices" for i
  proof -
    let ?base = "map cost base_costs"
    let ?alt = "map cost (cost_values ! i)"
    from cn i have oc: "office_costs p emp (other_offices ! i) commute_data = Inr (cost_values ! i)"
      by simp
    from office_costs_result [OF oc] have
      al: "length (cost_values ! i) = length emp"
      and as: "costs_in_scope_or_zero p commute_data (other_offices ! i) emp ?alt"
      by simp_all
    from al bl have same: "length (cost_values ! i) = length base_costs" by simp
    from i cl dl el have ri: "res ! i = \<lparr>diffs = ds ! i, diffs2 = ds2 ! i\<rparr>"
      unfolding res by simp
    from dn i cl have d1: "diffs (res ! i) = series_sub ?alt ?base"
      unfolding ri by simp
    from en i cl have d2: "diffs2 (res ! i) = select_mask (series_sub ?alt ?base)
                       (map (\<lambda>(a, b). a \<noteq> 0 \<and> b \<noteq> 0) (zip ?alt ?base))"
      unfolding ri by simp
    note by_emp = differential_by_employee [OF same]
    have f: "filter (\<lambda>j. ?alt ! j \<noteq> 0 \<and> ?base ! j \<noteq> 0) [0..<length emp]
      = filter (\<lambda>j. cost (cost_values ! i ! j) \<noteq> 0 \<and> cost (base_costs ! j) \<noteq> 0) [0..<length emp]"
      using al bl by (intro filter_cong) simp_all
    have m: "map (\<lambda>j. ?alt ! j - ?base ! j) js
      = map (\<lambda>j. cost (cost_values ! i ! j) - cost (base_costs ! j)) js"
      if "set js \<subseteq> {0..<length emp}" for js
      using that al bl by (intro map_cong) auto
    have e1: "diffs (res ! i) = map (\<lambda>j. ?alt ! j - ?base ! j) [0..<length emp]"
      unfolding d1 by_emp(1) bl by (rule m [symmetric]) auto
    have e2: "diffs2 (res ! i)
        = map (\<lambda>j. ?alt ! j - ?base ! j) (filter (\<lambda>j. ?alt ! j \<noteq> 0 \<and> ?base ! j \<noteq> 0) [0..<length emp])"
      unfolding f d2 by_emp(2) bl by (rule m [symmetric]) auto
    show ?thesis
      by (rule exI [of _ ?base], rule exI [of _ ?alt]) (intro conjI bs as e1 e2)
  qed
  with rlen show ?thesis by simp
qed

text \<open>With exactly one alternative office the graph is never produced.\<close>

lemma single_alternative_never_plotted:
  "commute_cost_differential_analysis haversine p emp [current_office, alternative] commute_data
     \<noteq> Inr res"
proof
  assume a: "commute_cost_differential_analysis haversine p emp [current_office, alternative] commute_data
     = Inr res"
  then obtain base_costs cost_values ax ds2 where
    cv: "other_office_costs p emp [alternative] commute_data = Inr cost_values"
    and gh: "get_histogram haversine emp [alternative] (commute_range_cut_off p) False
               (length [alternative]) 1 = Inr ax"
    and rl: "rotation_loop ax 0 cost_values base_costs = Inr ds2"
    by (auto simp add: commute_cost_differential_analysis_def split: sum.splits)
  from gh have ax: "ax = Axes"
    by (auto simp add: get_histogram_def subplots_def split: sum.splits if_splits)
  from other_office_costs_result [OF cv] obtain f where "cost_values = [f]"
    by (cases cost_values) auto
  with rl ax show False
    by (simp add: axes_item_def)
qed

text \<open>
  C4 (headline differential and the variant excluding remote-work rotation), at the
  claim's own scenario: office A is the baseline and office B the only alternative, and
  the first employee is within the driving cut-off of A at cost 10 and outside that of
  B. The costs are 10 and 5 at A, 0 and 45 at B, and the headline differentials -10 and
  40 are computed; then the histogram has one row and one column, \<^verbatim>\<open>plt.subplots\<close>
  returns a single Axes, \<^verbatim>\<open>ax[0]\<close> raises TypeError, and the second list is never
  computed. (When no employee is within the linear radius of B the histogram raises
  KeyError before that.)
\<close>

theorem C4_single_alternative_raises:
  "map_sum id (map cost) (office_costs default_project two_employees office_A sample_matrix)
     = Inr [10, 5]
   \<and> map_sum id (map cost) (office_costs default_project two_employees office_B sample_matrix)
     = Inr [0, 45]
   \<and> series_sub [0, 45] [10, 5] = [- 10, 40]
   \<and> subplots (length [office_B]) 1 = Inr Axes
   \<and> axes_item Axes 0 = Inl TypeError_subscript
   \<and> commute_cost_differential_analysis haversine default_project two_employees
        [office_A, office_B] sample_matrix
     = Inl (if filter_radius haversine two_employees [office_B] 50 True = [] then KeyError_latitude
            else TypeError_subscript)"
  by (simp add: commute_cost_differential_analysis_def office_costs_def filter_drive_distance_def
       check_d_def get_base_cost_df_def lookup_commute_cost_def cost_column_def
       series_sub_def default_project_def two_employees_def office_A_def office_B_def
       sample_matrix_def matrix_row_def get_histogram_def plot_preamble_def subplots_def
       axes_item_def Let_def)

text \<open>
  With a second alternative office the histogram has two rows, \<^verbatim>\<open>ax\<close> is an array and
  the graph is produced: the first employee has headline differential -10 at office B
  and is left out of the second list there.
\<close>

lemma two_alternatives_plotted:
  "commute_cost_differential_analysis grid_miles default_project two_employees
     [office_A, office_B, office_C] sample_matrix
   = Inr [\<lparr>diffs = [- 10, 40], diffs2 = [40]\<rparr>, \<lparr>diffs = [- 4, 2], diffs2 = [- 4, 2]\<rparr>]"
  by (simp add: commute_cost_differential_analysis_def office_costs_def filter_drive_distance_def
       check_d_def get_base_cost_df_def lookup_commute_cost_def cost_column_def
       series_sub_def default_project_def two_employees_def office_A_def office_B_def office_C_def
       sample_matrix_def matrix_row_def get_histogram_def plot_preamble_def subplots_def
       axes_item_def axes_hist_def Let_def filter_radius_def check_r_def grid_miles_def select_mask_def)

subsection \<open>The attrition risk graph\<close>

lemma count_above_filter: "count_above dt xs n = n + length (filter (\<lambda>x. x > dt) xs)"
  by (induction xs arbitrary: n) simp_all

lemma daily_threshold_value:
  assumes "commute_days_per_week p * commute_weeks_per_year p \<noteq> 0"
  shows "daily_threshold p
           = Inr (turnover_threshold_due_to_cost p * median_salary p
                    / real_of_int (commute_days_per_week p * commute_weeks_per_year p))"
  using assms by (simp add: daily_threshold_def py_truediv_def)

lemma daily_threshold_scenario:
  assumes "turnover_threshold_due_to_cost p = 0.03" and "median_salary p = 114068"
    and "commute_days_per_week p = 2" and "commute_weeks_per_year p = 50"
  shows "daily_threshold p = Inr 34.2204"
proof -
  from assms have v: "turnover_threshold_due_to_cost p = 3 / 100" "median_salary p = 114068"
       "commute_days_per_week p = 2" "commute_weeks_per_year p = 50"
    by simp_all
  show ?thesis
    unfolding daily_threshold_def py_truediv_def Let_def v by simp
qed

lemma attrition_figures_count:
  "attrition_figures p dt counted
     = \<lparr>cost_threshold = dt,
        above_threshold = length (filter (\<lambda>delta. delta > dt) counted),
        cost_impact = real (length (filter (\<lambda>delta. delta > dt) counted))
                        * turnover_probability_time_cost p * employee_replacement_cost p\<rparr>"
  by (simp add: attrition_figures_def count_above_filter Let_def)

lemma attrition_rows_grid:
  assumes "\<forall>r\<in>set rs. r < n \<and> r < length average_diffs \<and> r < length conservative_diffs"
    and "2 \<le> m"
  shows "attrition_rows (Axes2D n m) p dt average_diffs conservative_diffs rs
     = Inr (map (\<lambda>r. [attrition_figures p dt (average_diffs ! r),
                       attrition_figures p dt (conservative_diffs ! r)]) rs)"
  using assms
  by (induction rs) (simp_all add: attrition_cell_def axes_item2_def axes_hist_def list_item_def)

text \<open>
  With two or more alternative offices the graph is produced, and its figures are the
  ones the attrition analysis is meant to report: for each alternative office the
  number of employees whose average (column 0) or conservative (column 1) differential
  is above the daily threshold, and that number times the turnover probability times
  the replacement cost.
\<close>

lemma attrition_figures_reported:
  assumes "2 \<le> length other_offices"
    and "length average_diffs = length other_offices"
    and "length conservative_diffs = length other_offices"
    and "\<not> list_ex (\<lambda>each. each = []) (average_diffs @ conservative_diffs)"
    and "filter_radius haversine emp other_offices (commute_range_cut_off p) True \<noteq> []"
    and "commute_days_per_week p * commute_weeks_per_year p \<noteq> 0"
  shows "attrition_risk_analysis haversine p emp other_offices average_diffs conservative_diffs
     = Inr (map (\<lambda>r. [attrition_figures p
                         (turnover_threshold_due_to_cost p * median_salary p
                            / real_of_int (commute_days_per_week p * commute_weeks_per_year p))
                         (average_diffs ! r),
                       attrition_figures p
                         (turnover_threshold_due_to_cost p * median_salary p
                            / real_of_int (commute_days_per_week p * commute_weeks_per_year p))
                         (conservative_diffs ! r)])
              [0..<length other_offices])"
proof -
  from assms(1) have ne: "other_offices \<noteq> []"
    by auto
  from assms(1) have gh: "get_histogram haversine emp other_offices (commute_range_cut_off p)
        True (length other_offices) 2 = Inr (Axes2D (length other_offices) 2)"
    using assms(5) ne by (simp add: get_histogram_def plot_preamble_def subplots_def Let_def)
  have rows: "\<forall>r\<in>set [0..<length other_offices].
      r < length other_offices \<and> r < length average_diffs \<and> r < length conservative_diffs"
    using assms(2,3) by simp
  show ?thesis
    unfolding attrition_risk_analysis_def
    using assms(4) gh daily_threshold_value [OF assms(6)] attrition_rows_grid [OF rows]
    by simp
qed

text \<open>With exactly one alternative office no figure is ever computed.\<close>

lemma single_alternative_never_counted:
  "attrition_risk_analysis haversine p emp [alternative] average_diffs conservative_diffs \<noteq> Inr res"
proof
  assume a: "attrition_risk_analysis haversine p emp [alternative] average_diffs conservative_diffs = Inr res"
  then obtain ax dt where
    gh: "get_histogram haversine emp [alternative] (commute_range_cut_off p) True (length [alternative]) 2
           = Inr ax"
    and ar: "attrition_rows ax p dt average_diffs conservative_diffs [0..<length [alternative]] = Inr res"
    by (auto simp add: attrition_risk_analysis_def split: sum.splits if_splits)
  from gh have ax: "ax = Axes1D 2"
    by (auto simp add: get_histogram_def subplots_def split: sum.splits if_splits)
  from ar show False
    unfolding ax by (simp add: attrition_cell_def axes_item2_def)
qed

text \<open>
  C5 (attrition risk), for a project with the default parameters (0.03, 114068, 2 days,
  50 weeks) and one alternative office, the two employees having average differentials
  40 and 35 there. The daily threshold is 34.2204, both employees are above it and the
  expected cost would be 2 times 0.25 times 60000; but the histogram has one row and two
  columns, \<^verbatim>\<open>plt.subplots\<close> returns a one-dimensional array, \<^verbatim>\<open>ax[0,0]\<close> raises
  IndexError before the first count, and no count or expected cost is reported. (When
  no employee is within the linear radius of the office the histogram raises KeyError
  before that.)
\<close>

theorem C5_single_alternative_raises:
  "daily_threshold default_project = Inr 34.2204
   \<and> attrition_figures default_project 34.2204 [40, 35]
     = \<lparr>cost_threshold = 34.2204, above_threshold = 2, cost_impact = 30000\<rparr>
   \<and> subplots (length [office_B]) 2 = Inr (Axes1D 2)
   \<and> axes_item2 (Axes1D 2) 0 0 = Inl IndexError_dimensions
   \<and> attrition_risk_analysis haversine default_project two_employees [office_B]
        [ [40, 35] ] [ [80, 5] ]
     = Inl (if filter_radius haversine two_employees [office_B] 50 True = [] then KeyError_latitude
            else IndexError_dimensions)"
  by (simp add: attrition_risk_analysis_def get_histogram_def plot_preamble_def subplots_def
       daily_threshold_def py_truediv_def default_project_def attrition_cell_def axes_item2_def
       attrition_figures_def Let_def)

text \<open>
  With a second alternative office the grid is two-dimensional and the figures are
  computed.
\<close>

lemma two_alternatives_counted:
  "attrition_risk_analysis grid_miles default_project two_employees [office_B, office_C]
     [ [40, 35], [0, 50] ] [ [80, 5], [1, 2] ]
   = Inr [ [\<lparr>cost_threshold = 34.2204, above_threshold = 2, cost_impact = 30000\<rparr>,
           \<lparr>cost_threshold = 34.2204, above_threshold = 1, cost_impact = 15000\<rparr>],
          [\<lparr>cost_threshold = 34.2204, above_threshold = 1, cost_impact = 15000\<rparr>,
           \<lparr>cost_threshold = 34.2204, above_threshold = 0, cost_impact = 0\<rparr>] ]"
  by (simp add: attrition_risk_analysis_def get_histogram_def plot_preamble_def subplots_def
       daily_threshold_def py_truediv_def default_project_def attrition_cell_def axes_item2_def
       axes_hist_def Let_def filter_radius_def check_r_def grid_miles_def two_employees_def
       office_B_def office_C_def list_item_def attrition_figures_def upt_conv_Cons)

end
